theory Spec2Isabelle
  imports Main "HOL-Library.AList"
begin

section \<open>Values, errors, promises\<close>

text \<open>
  A JavaScript error object: \<open>new Error(message)\<close> built by the application, a
  \<open>TypeError\<close> raised by the runtime (destructuring or reading a property of
  \<open>null\<close>), or an error object reported by the hosted service.
\<close>

datatype error = Error string | TypeError string | ServiceError string

text \<open>
  Data exchanged with the service. A number is an integer or a finite decimal:
  \<open>JDec m k\<close> is \<open>m / 10^k\<close>, written without trailing zeros. Objects keep their
  properties in insertion order.
\<close>

datatype json =
    JNull
  | JBool bool
  | JNum int
  | JDec int nat
  | JStr string
  | JArr "json list"
  | JObj "(string \<times> json) list"

text \<open>JavaScript truthiness, as used by \<open>if (x)\<close> and \<open>x || y\<close>.\<close>

fun truthy :: "json \<Rightarrow> bool" where
  "truthy JNull = False"
| "truthy (JBool b) = b"
| "truthy (JNum n) = (n \<noteq> 0)"
| "truthy (JDec m k) = (m \<noteq> 0)"
| "truthy (JStr s) = (s \<noteq> [])"
| "truthy (JArr xs) = True"
| "truthy (JObj ps) = True"

text \<open>
  A promise, seen from the moment it is created: it never settles, or it settles after
  a number of milliseconds, rejected with an error (\<open>Inl\<close>) or fulfilled with a value.
\<close>

datatype 'a promise = Never | Settles nat "error + 'a"

definition delay :: "nat \<Rightarrow> 'a promise \<Rightarrow> 'a promise" where
  "delay t p = (case p of Never \<Rightarrow> Never | Settles u r \<Rightarrow> Settles (t + u) r)"

text \<open>
  \<open>Promise.race([p, new Promise((_, reject) => setTimeout(() => reject(new Error(msg)), ms))])\<close>:
  the first to settle wins, the other is abandoned. A call that settles in the very
  millisecond of the timer is taken to have settled within the time allowed.
\<close>

definition race :: "'a promise \<Rightarrow> nat \<Rightarrow> string \<Rightarrow> 'a promise" where
  "race p ms msg =
     (case p of
        Never \<Rightarrow> Settles ms (Inl (Error msg))
      | Settles t r \<Rightarrow> if t \<le> ms then Settles t r else Settles ms (Inl (Error msg)))"

section \<open>Requests to the service, console output, asynchronous runs\<close>

record js_file =
  file_name :: string

datatype request =
    Auth_signUp string string string string
  | Auth_signInWithPassword string string
  | Auth_signOut
  | Auth_getUser
  | Auth_getSession
  | Db_insert string json
  | Db_update string json string string
  | Db_select_single string string string
  | Db_select_order string string string string bool
  | Storage_upload string string js_file
  | Http_post string string json

datatype level = LOG | WARN | ERROR

datatype logged =
    Msg level string
  | MsgErr level string error
  | MsgData level string json

text \<open>
  What one call of an asynchronous function amounts to: the promise it returns, what it
  writes to the console, and the requests it sends to the service. Effects of a branch
  that lost a race are kept: the loser is abandoned, not cancelled.
\<close>

record 'a run =
  settled :: "'a promise"
  console :: "logged list"
  requests :: "request list"

definition resolve :: "'a \<Rightarrow> 'a run" where
  "resolve x = \<lparr>settled = Settles 0 (Inr x), console = [], requests = []\<rparr>"

definition throw :: "error \<Rightarrow> 'a run" where
  "throw e = \<lparr>settled = Settles 0 (Inl e), console = [], requests = []\<rparr>"

definition console_write :: "logged \<Rightarrow> unit run" where
  "console_write l = \<lparr>settled = Settles 0 (Inr ()), console = [l], requests = []\<rparr>"

text \<open>\<open>const x = await m; k x\<close>: the rest runs only once \<open>m\<close> is fulfilled.\<close>

definition await :: "'a run \<Rightarrow> ('a \<Rightarrow> 'b run) \<Rightarrow> 'b run" where
  "await m k =
     (case settled m of
        Never \<Rightarrow> \<lparr>settled = Never, console = console m, requests = requests m\<rparr>
      | Settles t (Inl e) \<Rightarrow>
          \<lparr>settled = Settles t (Inl e), console = console m, requests = requests m\<rparr>
      | Settles t (Inr x) \<Rightarrow>
          (let n = k x in
           \<lparr>settled = delay t (settled n), console = console m @ console n,
            requests = requests m @ requests n\<rparr>))"

text \<open>\<open>try { m } catch (e) { h e }\<close>.\<close>

definition try_catch :: "'a run \<Rightarrow> (error \<Rightarrow> 'a run) \<Rightarrow> 'a run" where
  "try_catch m h =
     (case settled m of
        Settles t (Inl e) \<Rightarrow>
          (let n = h e in
           \<lparr>settled = delay t (settled n), console = console m @ console n,
            requests = requests m @ requests n\<rparr>)
      | _ \<Rightarrow> m)"

definition race_timeout :: "'a run \<Rightarrow> nat \<Rightarrow> string \<Rightarrow> 'a run" where
  "race_timeout m ms msg = m\<lparr>settled := race (settled m) ms msg\<rparr>"

section \<open>The client of the hosted service\<close>

record metadata =
  md_name :: "string option"
  md_user_type :: "string option"

record user =
  user_id :: string
  user_metadata :: "metadata option"

record session =
  session_user :: "user option"

record auth_data =
  data_user :: "user option"
  data_session :: "session option"

text \<open>The response shapes \<open>{ data, error }\<close> of the SDK; a \<open>null\<close> is \<open>None\<close>.\<close>

record auth_response =
  auth_data :: "auth_data option"
  auth_error :: "error option"

record signout_response =
  signout_error :: "error option"

record getuser_response =
  getuser_data :: "user option option"
  getuser_error :: "error option"

record getsession_response =
  getsession_data :: "session option option"
  getsession_error :: "error option"

record db_response =
  db_data :: json
  db_error :: "error option"

record upload_response =
  upload_error :: "error option"

text \<open>What \<open>fetch\<close> resolves with: the \<open>ok\<close> flag and the promise of \<open>response.json()\<close>.\<close>

record http_response =
  resp_ok :: bool
  resp_json :: "json promise"

text \<open>
  The configured client (\<open>createClient(url, anonKey, ...)\<close>) is part of the SDK, not of
  this repository: what it answers to each request is a parameter.
\<close>

record backend =
  b_auth :: "request \<Rightarrow> auth_response promise"
  b_signOut :: "request \<Rightarrow> signout_response promise"
  b_getUser :: "request \<Rightarrow> getuser_response promise"
  b_getSession :: "request \<Rightarrow> getsession_response promise"
  b_db :: "request \<Rightarrow> db_response promise"
  b_upload :: "request \<Rightarrow> upload_response promise"
  b_publicUrl :: "string \<Rightarrow> string \<Rightarrow> error + string"
  b_fetch :: "request \<Rightarrow> http_response promise"

text \<open>A call of an SDK method on the configured client: the request goes out.\<close>

definition sdk :: "(request \<Rightarrow> 'a promise) \<Rightarrow> request \<Rightarrow> 'a run" where
  "sdk f req = \<lparr>settled = f req, console = [], requests = [req]\<rparr>"

section \<open>authService\<close>

definition createPatientProfile :: "bool \<Rightarrow> backend \<Rightarrow> string \<Rightarrow> string \<Rightarrow> json run" where
  "createPatientProfile configured b userId name =
     (if \<not> configured then throw (Error ''Supabase not configured'')
      else
        await (sdk (b_db b) (Db_insert ''patients''
                 (JObj [(''user_id'', JStr userId), (''name'', JStr name),
                        (''emergency_contact'', JObj []), (''medical_history'', JArr []),
                        (''allergies'', JArr []), (''current_medications'', JArr []),
                        (''insurance_info'', JObj [])])))
          (\<lambda>r. case db_error r of Some e \<Rightarrow> throw e | None \<Rightarrow> resolve (db_data r)))"

text \<open>\<open>now\<close> is the value of \<open>Date.now()\<close>, printed in decimal by the caller.\<close>

definition createDoctorProfile ::
  "bool \<Rightarrow> backend \<Rightarrow> string \<Rightarrow> string \<Rightarrow> string \<Rightarrow> json run" where
  "createDoctorProfile configured b now userId name =
     (if \<not> configured then throw (Error ''Supabase not configured'')
      else
        await (sdk (b_db b) (Db_insert ''doctors''
                 (JObj [(''user_id'', JStr userId), (''name'', JStr name),
                        (''specialization'', JStr ''''),
                        (''license_number'', JStr (''LIC-'' @ now)),
                        (''verification_status'', JStr ''pending''), (''rating'', JNum 0),
                        (''location'', JStr ''''), (''education'', JStr ''''),
                        (''languages'', JArr [JStr ''English'']),
                        (''consultation_fee'', JNum 0), (''availability'', JObj [])])))
          (\<lambda>r. case db_error r of Some e \<Rightarrow> throw e | None \<Rightarrow> resolve (db_data r)))"

text \<open>
  Reading \<open>data.user\<close> when \<open>data\<close> is \<open>null\<close> raises a \<open>TypeError\<close>, inside the
  \<open>try\<close> block.
\<close>

definition authService_signUp ::
  "bool \<Rightarrow> backend \<Rightarrow> string \<Rightarrow> string \<Rightarrow> string \<Rightarrow> string \<Rightarrow> string \<Rightarrow> auth_data option run" where
  "authService_signUp configured b now email password name userType =
     try_catch
       (if \<not> configured
        then throw (Error ''Authentication service is not available. Please check your configuration.'')
        else
          await (race_timeout (sdk (b_auth b) (Auth_signUp email password name userType))
                   10000 ''Sign up request timed out'')
            (\<lambda>r. case auth_error r of
                    Some e \<Rightarrow> throw e
                  | None \<Rightarrow>
                      (case auth_data r of
                         None \<Rightarrow> throw (TypeError ''Cannot read properties of null'')
                       | Some d \<Rightarrow>
                           (case data_user d of
                              Some u \<Rightarrow>
                                (if configured then
                                   await
                                     (try_catch
                                        (if userType = ''patient''
                                         then await (createPatientProfile configured b (user_id u) name)
                                                (\<lambda>_. resolve ())
                                         else if userType = ''doctor''
                                         then await (createDoctorProfile configured b now (user_id u) name)
                                                (\<lambda>_. resolve ())
                                         else resolve ())
                                        (\<lambda>profileError. console_write
                                           (Msg LOG ''Profile creation skipped - database not configured'')))
                                     (\<lambda>_. resolve (Some d))
                                 else resolve (Some d))
                            | None \<Rightarrow> resolve (Some d)))))
       (\<lambda>e. await (console_write (MsgErr ERROR ''Sign up error:'' e)) (\<lambda>_. throw e))"

definition authService_signIn ::
  "bool \<Rightarrow> backend \<Rightarrow> string \<Rightarrow> string \<Rightarrow> auth_data option run" where
  "authService_signIn configured b email password =
     try_catch
       (if \<not> configured
        then throw (Error ''Authentication service is not available. Please check your configuration.'')
        else
          await (race_timeout (sdk (b_auth b) (Auth_signInWithPassword email password))
                   8000 ''Sign in request timed out'')
            (\<lambda>r. case auth_error r of Some e \<Rightarrow> throw e | None \<Rightarrow> resolve (auth_data r)))
       (\<lambda>e. await (console_write (MsgErr ERROR ''Sign in error:'' e)) (\<lambda>_. throw e))"

definition authService_signOut :: "bool \<Rightarrow> backend \<Rightarrow> unit run" where
  "authService_signOut configured b =
     try_catch
       (if \<not> configured
        then console_write (Msg WARN ''Supabase not configured, clearing local session only'')
        else
          await (race_timeout (sdk (b_signOut b) Auth_signOut) 5000 ''Sign out request timed out'')
            (\<lambda>r. case signout_error r of Some e \<Rightarrow> throw e | None \<Rightarrow> resolve ()))
       (\<lambda>e. console_write (MsgErr WARN ''Sign out error (clearing local session):'' e))"

definition authService_getCurrentUser :: "bool \<Rightarrow> backend \<Rightarrow> user option run" where
  "authService_getCurrentUser configured b =
     try_catch
       (if \<not> configured then resolve None
        else
          await (race_timeout (sdk (b_getUser b) Auth_getUser) 5000 ''Get user request timed out'')
            (\<lambda>r. case getuser_data r of
                    None \<Rightarrow> throw (TypeError ''Cannot destructure property of null'')
                  | Some u \<Rightarrow> resolve u))
       (\<lambda>e. await (console_write (MsgErr WARN ''Get current user error:'' e)) (\<lambda>_. resolve None))"

section \<open>dataService\<close>

text \<open>\<open>s.split(c)\<close> for a one-character separator, and \<open>xs.pop()\<close>.\<close>

fun split_on :: "char \<Rightarrow> string \<Rightarrow> string list" where
  "split_on c [] = [] # []"
| "split_on c (x # xs) =
     (if x = c then [] # split_on c xs
      else (case split_on c xs of [] \<Rightarrow> [x] # [] | w # ws \<Rightarrow> (x # w) # ws))"

definition pop :: "'a list \<Rightarrow> 'a option" where
  "pop xs = (case rev xs of [] \<Rightarrow> None | x # _ \<Rightarrow> Some x)"

definition mock_upload_url :: "js_file \<Rightarrow> string" where
  "mock_upload_url f = ''https://example.com/mock-upload/'' @ file_name f"

text \<open>
  \<open>now\<close> is \<open>Date.now()\<close> in decimal and \<open>rand\<close> is
  \<open>Math.random().toString(36).substring(2)\<close>: the path under which the file is
  stored keeps the extension of its name.
\<close>

definition upload_filePath :: "string \<Rightarrow> string \<Rightarrow> js_file \<Rightarrow> string" where
  "upload_filePath now rand f =
     (let fileExt = (case pop (split_on CHR ''.'' (file_name f)) of
                       None \<Rightarrow> ''undefined'' | Some e \<Rightarrow> e);
          fileName = now @ ''-'' @ rand @ ''.'' @ fileExt;
          filePath = fileName
      in filePath)"

text \<open>\<open>getPublicUrl\<close> is synchronous and may throw.\<close>

definition uploadImage ::
  "bool \<Rightarrow> backend \<Rightarrow> string \<Rightarrow> string \<Rightarrow> js_file \<Rightarrow> string \<Rightarrow> string run" where
  "uploadImage configured b now rand f bucket =
     (if \<not> configured then resolve (mock_upload_url f)
      else
        try_catch
          (let filePath = upload_filePath now rand f
           in await (sdk (b_upload b) (Storage_upload bucket filePath f))
                (\<lambda>r. case upload_error r of
                        Some uploadError \<Rightarrow> throw uploadError
                      | None \<Rightarrow>
                          (case b_publicUrl b bucket filePath of
                             Inl e \<Rightarrow> throw e
                           | Inr publicUrl \<Rightarrow> resolve publicUrl)))
          (\<lambda>e. await (console_write (MsgErr ERROR ''Upload error:'' e))
                  (\<lambda>_. resolve (mock_upload_url f))))"

text \<open>
  Reading a property: of \<open>null\<close> it raises, of an object it is the property's value,
  and \<open>undefined\<close> (shown as \<open>JNull\<close>) when the property is missing or the value is
  not an object.
\<close>

definition get_prop :: "json \<Rightarrow> string \<Rightarrow> error + json" where
  "get_prop v k =
     (case v of
        JNull \<Rightarrow> Inl (TypeError ''Cannot read properties of null'')
      | JObj ps \<Rightarrow> (case map_of ps k of None \<Rightarrow> Inr JNull | Some x \<Rightarrow> Inr x)
      | _ \<Rightarrow> Inr JNull)"

text \<open>
  The object literal \<open>{ ...base, ...props }\<close>: each property of \<open>props\<close> is set in
  turn, replacing the value of a property already there.
\<close>

definition spread :: "(string \<times> json) list \<Rightarrow> (string \<times> json) list \<Rightarrow> (string \<times> json) list" where
  "spread base props = foldl (\<lambda>acc (k, v). AList.update k v acc) base props"

text \<open>\<open>from(table).insert(row).select().single()\<close> inside \<open>try { } catch { log; throw }\<close>.\<close>

definition insert_logged :: "backend \<Rightarrow> string \<Rightarrow> json \<Rightarrow> string \<Rightarrow> json run" where
  "insert_logged b table row msg =
     try_catch
       (await (sdk (b_db b) (Db_insert table row))
          (\<lambda>r. case db_error r of Some e \<Rightarrow> throw e | None \<Rightarrow> resolve (db_data r)))
       (\<lambda>e. await (console_write (MsgErr ERROR msg e)) (\<lambda>_. throw e))"

definition saveMedicalImage ::
  "bool \<Rightarrow> backend \<Rightarrow> string \<Rightarrow> string \<Rightarrow> string \<Rightarrow> json \<Rightarrow> json run" where
  "saveMedicalImage configured b patientId imageUrl imageType aiAnalysis =
     (if \<not> configured then
        await (console_write (MsgData LOG ''Mock: Medical image saved''
                 (JObj [(''patientId'', JStr patientId), (''imageUrl'', JStr imageUrl),
                        (''imageType'', JStr imageType), (''aiAnalysis'', aiAnalysis)])))
          (\<lambda>_. resolve (JObj [(''id'', JStr ''mock-id''), (''patient_id'', JStr patientId),
                               (''image_url'', JStr imageUrl)]))
      else
        try_catch
          (case get_prop aiAnalysis ''confidence'' of
             Inl e \<Rightarrow> throw e
           | Inr confidence \<Rightarrow>
               await (sdk (b_db b) (Db_insert ''medical_images''
                        (JObj [(''patient_id'', JStr patientId), (''image_url'', JStr imageUrl),
                               (''image_type'', JStr imageType), (''ai_analysis'', aiAnalysis),
                               (''diagnosis_confidence'',
                                  if truthy confidence then confidence else JNum 0)])))
                 (\<lambda>r. case db_error r of Some e \<Rightarrow> throw e | None \<Rightarrow> resolve (db_data r)))
          (\<lambda>e. await (console_write (MsgErr ERROR ''Save medical image error:'' e)) (\<lambda>_. throw e)))"

definition saveSymptomAnalysis :: "bool \<Rightarrow> backend \<Rightarrow> (string \<times> json) list \<Rightarrow> json run" where
  "saveSymptomAnalysis configured b analysisData =
     (if \<not> configured then
        await (console_write (MsgData LOG ''Mock: Symptom analysis saved'' (JObj analysisData)))
          (\<lambda>_. resolve (JObj (spread [(''id'', JStr ''mock-id'')] analysisData)))
      else insert_logged b ''symptom_analyses'' (JObj analysisData) ''Save symptom analysis error:'')"

definition saveChatSession :: "bool \<Rightarrow> backend \<Rightarrow> (string \<times> json) list \<Rightarrow> json run" where
  "saveChatSession configured b sessionData =
     (if \<not> configured then
        await (console_write (MsgData LOG ''Mock: Chat session saved'' (JObj sessionData)))
          (\<lambda>_. resolve (JObj (spread [(''id'', JStr ''mock-id'')] sessionData)))
      else insert_logged b ''chat_sessions'' (JObj sessionData) ''Save chat session error:'')"


definition createAppointment :: "bool \<Rightarrow> backend \<Rightarrow> (string \<times> json) list \<Rightarrow> json run" where
  "createAppointment configured b appointmentData =
     (if \<not> configured then
        await (console_write (MsgData LOG ''Mock: Appointment created'' (JObj appointmentData)))
          (\<lambda>_. resolve (JObj (spread [(''id'', JStr ''mock-id'')] appointmentData)))
      else insert_logged b ''appointments'' (JObj appointmentData) ''Create appointment error:'')"

definition createEmergencyAlert :: "bool \<Rightarrow> backend \<Rightarrow> (string \<times> json) list \<Rightarrow> json run" where
  "createEmergencyAlert configured b alertData =
     (if \<not> configured then
        await (console_write (MsgData LOG ''Mock: Emergency alert created'' (JObj alertData)))
          (\<lambda>_. resolve (JObj (spread [(''id'', JStr ''mock-id'')] alertData)))
      else insert_logged b ''emergency_alerts'' (JObj alertData) ''Create emergency alert error:'')"

text \<open>The profile lookups have no \<open>try\<close> block: nothing is written to the console.\<close>

definition getPatientProfile :: "bool \<Rightarrow> backend \<Rightarrow> string \<Rightarrow> json run" where
  "getPatientProfile configured b userId =
     (if \<not> configured then throw (Error ''Supabase not configured'')
      else
        await (sdk (b_db b) (Db_select_single ''patients'' ''user_id'' userId))
          (\<lambda>r. case db_error r of Some e \<Rightarrow> throw e | None \<Rightarrow> resolve (db_data r)))"

definition getDoctorProfile :: "bool \<Rightarrow> backend \<Rightarrow> string \<Rightarrow> json run" where
  "getDoctorProfile configured b userId =
     (if \<not> configured then throw (Error ''Supabase not configured'')
      else
        await (sdk (b_db b) (Db_select_single ''doctors'' ''user_id'' userId))
          (\<lambda>r. case db_error r of Some e \<Rightarrow> throw e | None \<Rightarrow> resolve (db_data r)))"

section \<open>aiService\<close>








section \<open>The useAuth hook\<close>

text \<open>
  \<open>AuthUser\<close> extends the SDK's \<open>User\<close> with two optional properties. The hook keeps
  three pieces of React state; \<open>null\<close> for the profile is \<open>JNull\<close>.
\<close>

record auth_user =
  au_user :: user
  au_profile :: "json option"
  au_userType :: "string option"

record hook_state =
  hs_user :: "auth_user option"
  hs_profile :: json
  hs_loading :: bool

definition isAuthenticated :: "hook_state \<Rightarrow> bool" where
  "isAuthenticated st = (hs_user st \<noteq> None)"

definition message :: "error \<Rightarrow> string" where
  "message e = (case e of Error m \<Rightarrow> m | TypeError m \<Rightarrow> m | ServiceError m \<Rightarrow> m)"

text \<open>\<open>authUser.user_metadata?.user_type || 'patient'\<close>: the empty string is falsy too.\<close>

definition userType_of :: "user \<Rightarrow> string" where
  "userType_of authUser =
     (case user_metadata authUser of
        None \<Rightarrow> ''patient''
      | Some m \<Rightarrow>
          (case md_user_type m of
             None \<Rightarrow> ''patient''
           | Some t \<Rightarrow> if t = [] then ''patient'' else t))"

text \<open>
  A function of the hook returns its run together with the React state it leaves; while
  its promise is pending the state is the one at the point where it is suspended.
\<close>

definition loadUserProfile ::
  "bool \<Rightarrow> backend \<Rightarrow> user \<Rightarrow> hook_state \<Rightarrow> unit run \<times> hook_state" where
  "loadUserProfile configured b authUser st =
     (let userType = userType_of authUser;
          lookup =
            try_catch
              (if userType = ''patient'' then getPatientProfile configured b (user_id authUser)
               else getDoctorProfile configured b (user_id authUser))
              (\<lambda>profileError.
                 await (console_write (Msg LOG ''Profile not found, user can still use basic features''))
                   (\<lambda>_. resolve JNull))
      in case settled lookup of
           Never \<Rightarrow>
             (\<lparr>settled = Never, console = console lookup, requests = requests lookup\<rparr>, st)
         | Settles t (Inr userProfile) \<Rightarrow>
             (\<lparr>settled = Settles t (Inr ()), console = console lookup,
               requests = requests lookup\<rparr>,
              st\<lparr>hs_user := Some \<lparr>au_user = authUser, au_profile = Some userProfile,
                                   au_userType = Some userType\<rparr>,
                 hs_profile := userProfile\<rparr>)
         | Settles t (Inl e) \<Rightarrow>
             (\<lparr>settled = Settles t (Inr ()),
               console = console lookup @ [MsgErr ERROR ''Error loading user profile:'' e],
               requests = requests lookup\<rparr>,
              st\<lparr>hs_user := Some \<lparr>au_user = authUser, au_profile = None,
                                   au_userType = None\<rparr>\<rparr>))"

text \<open>
  The client used when the service is not configured answers \<open>getSession\<close> at once and
  sends nothing.
\<close>

definition supabase_auth_getSession :: "bool \<Rightarrow> backend \<Rightarrow> getsession_response run" where
  "supabase_auth_getSession configured b =
     (if \<not> configured
      then resolve \<lparr>getsession_data = Some None, getsession_error = None\<rparr>
      else sdk (b_getSession b) Auth_getSession)"

definition getInitialSession ::
  "bool \<Rightarrow> backend \<Rightarrow> hook_state \<Rightarrow> unit run \<times> hook_state" where
  "getInitialSession configured b st =
     (let fetch =
            await (race_timeout (supabase_auth_getSession configured b) 8000 ''Session timeout'')
              (\<lambda>r. case getsession_data r of
                      None \<Rightarrow> throw (TypeError ''Cannot destructure property of null'')
                    | Some None \<Rightarrow> resolve None
                    | Some (Some sess) \<Rightarrow> resolve (session_user sess))
      in case settled fetch of
           Never \<Rightarrow>
             (\<lparr>settled = Never, console = console fetch, requests = requests fetch\<rparr>, st)
         | Settles t (Inl e) \<Rightarrow>
             (\<lparr>settled = Settles t (Inr ()),
               console = console fetch @
                 [MsgData WARN ''Error getting initial session (using offline mode):''
                    (JStr (message e))],
               requests = requests fetch\<rparr>,
              st\<lparr>hs_loading := False\<rparr>)
         | Settles t (Inr None) \<Rightarrow>
             (\<lparr>settled = Settles t (Inr ()), console = console fetch,
               requests = requests fetch\<rparr>,
              st\<lparr>hs_loading := False\<rparr>)
         | Settles t (Inr (Some u)) \<Rightarrow>
             (case loadUserProfile configured b u st of
                (m, st') \<Rightarrow>
                  (case settled m of
                     Never \<Rightarrow>
                       (\<lparr>settled = Never, console = console fetch @ console m,
                         requests = requests fetch @ requests m\<rparr>, st')
                   | Settles t' (Inr _) \<Rightarrow>
                       (\<lparr>settled = Settles (t + t') (Inr ()),
                         console = console fetch @ console m,
                         requests = requests fetch @ requests m\<rparr>,
                        st'\<lparr>hs_loading := False\<rparr>)
                   | Settles t' (Inl profileError) \<Rightarrow>
                       (\<lparr>settled = Settles (t + t') (Inr ()),
                         console = console fetch @ console m @
                           [MsgErr WARN ''Profile loading failed, continuing with basic auth:''
                              profileError],
                         requests = requests fetch @ requests m\<rparr>,
                        st'\<lparr>hs_user := Some \<lparr>au_user = u, au_profile = None,
                                              au_userType = None\<rparr>,
                            hs_loading := False\<rparr>))))"

text \<open>The callback registered with \<open>onAuthStateChange\<close>, given the new session.\<close>

definition authStateChanged ::
  "bool \<Rightarrow> backend \<Rightarrow> session option \<Rightarrow> hook_state \<Rightarrow> unit run \<times> hook_state" where
  "authStateChanged configured b sess st =
     (case (case sess of None \<Rightarrow> None | Some s \<Rightarrow> session_user s) of
        Some u \<Rightarrow>
          (case loadUserProfile configured b u st of
             (m, st') \<Rightarrow>
               (case settled m of
                  Never \<Rightarrow> (m, st')
                | Settles t (Inr _) \<Rightarrow> (m, st'\<lparr>hs_loading := False\<rparr>)
                | Settles t (Inl e) \<Rightarrow>
                    (\<lparr>settled = Settles t (Inr ()),
                      console = console m @ [MsgErr ERROR ''Error in auth state change:'' e],
                      requests = requests m\<rparr>,
                     st'\<lparr>hs_loading := False\<rparr>)))
      | None \<Rightarrow>
          (resolve (), st\<lparr>hs_user := None, hs_profile := JNull, hs_loading := False\<rparr>))"

text \<open>
  \<open>signUp\<close>, \<open>signIn\<close> and \<open>signOut\<close> of the hook, given the run of the
  \<open>authService\<close> call they make: \<open>setLoading(true)\<close>, the race against the hook's
  own timer, \<open>catch { log; throw }\<close>, and \<open>setLoading(false)\<close> in \<open>finally\<close>.
\<close>

definition hook_signUp :: "'a run \<Rightarrow> hook_state \<Rightarrow> 'a run \<times> hook_state" where
  "hook_signUp call st =
     (let m = try_catch (race_timeout call 15000 ''Sign up timeout - please try again'')
                (\<lambda>e. await (console_write (MsgErr ERROR ''Sign up error:'' e)) (\<lambda>_. throw e))
      in (m, case settled m of
               Never \<Rightarrow> st\<lparr>hs_loading := True\<rparr>
             | Settles t r \<Rightarrow> st\<lparr>hs_loading := False\<rparr>))"

definition hook_signIn :: "'a run \<Rightarrow> hook_state \<Rightarrow> 'a run \<times> hook_state" where
  "hook_signIn call st =
     (let m = try_catch
                (race_timeout call 12000
                   ''Sign in timeout - please check your connection and try again'')
                (\<lambda>e. await (console_write (MsgErr ERROR ''Sign in error:'' e)) (\<lambda>_. throw e))
      in (m, case settled m of
               Never \<Rightarrow> st\<lparr>hs_loading := True\<rparr>
             | Settles t r \<Rightarrow> st\<lparr>hs_loading := False\<rparr>))"

definition hook_signOut :: "unit run \<Rightarrow> hook_state \<Rightarrow> unit run \<times> hook_state" where
  "hook_signOut call st =
     (let m = try_catch (race_timeout call 8000 ''Sign out timeout'')
                (\<lambda>e. await (console_write (MsgErr ERROR ''Sign out error:'' e)) (\<lambda>_. throw e))
      in (m, case settled m of
               Never \<Rightarrow> st\<lparr>hs_loading := True\<rparr>
             | Settles t (Inr _) \<Rightarrow>
                 st\<lparr>hs_user := None, hs_profile := JNull, hs_loading := False\<rparr>
             | Settles t (Inl e) \<Rightarrow>
                 st\<lparr>hs_user := None, hs_profile := JNull, hs_loading := False\<rparr>))"

definition useAuth_signUp ::
  "bool \<Rightarrow> backend \<Rightarrow> string \<Rightarrow> string \<Rightarrow> string \<Rightarrow> string \<Rightarrow> string \<Rightarrow> hook_state
     \<Rightarrow> auth_data option run \<times> hook_state" where
  "useAuth_signUp configured b now email password name userType =
     hook_signUp (authService_signUp configured b now email password name userType)"

definition useAuth_signIn ::
  "bool \<Rightarrow> backend \<Rightarrow> string \<Rightarrow> string \<Rightarrow> hook_state \<Rightarrow> auth_data option run \<times> hook_state" where
  "useAuth_signIn configured b email password =
     hook_signIn (authService_signIn configured b email password)"

definition useAuth_signOut :: "bool \<Rightarrow> backend \<Rightarrow> hook_state \<Rightarrow> unit run \<times> hook_state" where
  "useAuth_signOut configured b = hook_signOut (authService_signOut configured b)"

section \<open>The result cache and the debounce registry\<close>

text \<open>
  \<open>queryCache\<close> and \<open>debounceMap\<close> are shared by all calls, and \<open>debounceQuery\<close>
  works through timers: these are modelled as a machine on the state of the module and
  of the event loop. Time is \<open>Date.now()\<close> in milliseconds. A timer remembers what its
  callback closes over: the key, the query function (named by the request it sends) and
  the promise it settles.
\<close>

record timer =
  tm_id :: nat
  tm_due :: int
  tm_key :: string
  tm_query :: request
  tm_promise :: nat

record cache_entry =
  ce_data :: json
  ce_timestamp :: int

record machine =
  clock :: int
  queryCache :: "string \<rightharpoonup> cache_entry"
  debounceMap :: "string \<rightharpoonup> nat"
  timers :: "timer list"
  next_timer :: nat
  flights :: "timer list"
  sent :: "request list"
  promises :: "nat \<rightharpoonup> error + json"
  next_promise :: nat
  waiting :: "(nat \<times> nat) list"
  returned :: "nat \<rightharpoonup> json"
  next_caller :: nat
  console_out :: "logged list"

definition init :: "int \<Rightarrow> machine" where
  "init t0 =
     \<lparr>clock = t0, queryCache = Map.empty, debounceMap = Map.empty, timers = [],
      next_timer = 0, flights = [], sent = [], promises = Map.empty, next_promise = 0,
      waiting = [], returned = Map.empty, next_caller = 0, console_out = []\<rparr>"

definition CACHE_DURATION :: int where
  "CACHE_DURATION = 5 * 60 * 1000"

text \<open>\<open>JSON.stringify\<close> on the values above (control characters are not escaped).\<close>

fun show_nat :: "nat \<Rightarrow> string" where
  "show_nat n =
     (if n < 10 then [char_of (48 + n)]
      else show_nat (n div 10) @ [char_of (48 + n mod 10)])"

declare show_nat.simps [simp del]

definition show_int :: "int \<Rightarrow> string" where
  "show_int i = (if i < 0 then ''-'' @ show_nat (nat (- i)) else show_nat (nat i))"

definition show_dec :: "int \<Rightarrow> nat \<Rightarrow> string" where
  "show_dec m k =
     (let a = nat \<bar>m\<bar>; frac = show_nat (a mod 10 ^ k)
      in (if m < 0 then ''-'' else []) @ show_nat (a div 10 ^ k) @ ''.'' @
         replicate (k - length frac) CHR ''0'' @ frac)"

definition quote :: "string \<Rightarrow> string" where
  "quote s =
     [CHR 0x22] @
     concat (map (\<lambda>c. if c = CHR 0x22 \<or> c = CHR 0x5C then [CHR 0x5C, c] else [c]) s) @
     [CHR 0x22]"

fun join :: "string \<Rightarrow> string list \<Rightarrow> string" where
  "join sep [] = []"
| "join sep [x] = x"
| "join sep (x # y # ys) = x @ sep @ join sep (y # ys)"

fun stringify :: "json \<Rightarrow> string" where
  "stringify JNull = ''null''"
| "stringify (JBool b) = (if b then ''true'' else ''false'')"
| "stringify (JNum n) = show_int n"
| "stringify (JDec m k) = (if k = 0 then show_int m else show_dec m k)"
| "stringify (JStr s) = quote s"
| "stringify (JArr xs) = ''['' @ join '','' (map stringify xs) @ '']''"
| "stringify (JObj ps) =
     ''{'' @ join '','' (map (\<lambda>p. quote (fst p) @ '':'' @ stringify (snd p)) ps) @ ''}''"

definition getCacheKey :: "string \<Rightarrow> json \<Rightarrow> string" where
  "getCacheKey table query = table @ ''_'' @ stringify query"

definition getCachedData :: "string \<Rightarrow> machine \<Rightarrow> json" where
  "getCachedData key s =
     (case queryCache s key of
        None \<Rightarrow> JNull
      | Some cached \<Rightarrow>
          if clock s - ce_timestamp cached < CACHE_DURATION then ce_data cached else JNull)"

definition setCachedData :: "string \<Rightarrow> json \<Rightarrow> machine \<Rightarrow> machine" where
  "setCachedData key data s =
     s\<lparr>queryCache := (queryCache s)(key \<mapsto> \<lparr>ce_data = data, ce_timestamp = clock s\<rparr>)\<rparr>"

definition clearTimeout :: "nat \<Rightarrow> machine \<Rightarrow> machine" where
  "clearTimeout tid s = s\<lparr>timers := filter (\<lambda>t. tm_id t \<noteq> tid) (timers s)\<rparr>"

text \<open>
  \<open>debounceQuery(key, queryFn, delay)\<close> up to its \<open>return\<close>: a timer pending for the
  key is cleared, a new one is set and registered. The promise returned is the number
  given back; nothing else refers to the promise of a cleared timer.
\<close>

definition debounceQuery :: "string \<Rightarrow> request \<Rightarrow> nat \<Rightarrow> machine \<Rightarrow> nat \<times> machine" where
  "debounceQuery key queryFn delay_ms s =
     (let p = next_promise s;
          s1 = (case debounceMap s key of Some tid \<Rightarrow> clearTimeout tid s | None \<Rightarrow> s);
          timeoutId = next_timer s1
      in (p, s1\<lparr>timers := timers s1 @
                     [\<lparr>tm_id = timeoutId, tm_due = clock s1 + int delay_ms, tm_key = key,
                       tm_query = queryFn, tm_promise = p\<rparr>],
                 next_timer := Suc timeoutId,
                 debounceMap := (debounceMap s1)(key \<mapsto> timeoutId),
                 next_promise := Suc p\<rparr>))"

text \<open>The timer's callback up to \<open>await queryFn()\<close>: the query is sent.\<close>

definition fire :: "timer \<Rightarrow> machine \<Rightarrow> machine" where
  "fire t s = s\<lparr>sent := sent s @ [tm_query t], flights := flights s @ [t]\<rparr>"

text \<open>Time passes; the timers that fall due run, earliest first.\<close>

definition elapse :: "nat \<Rightarrow> machine \<Rightarrow> machine" where
  "elapse d s =
     (let s1 = s\<lparr>clock := clock s + int d\<rparr>;
          due = sort_key tm_due (filter (\<lambda>t. tm_due t \<le> clock s1) (timers s1));
          s2 = s1\<lparr>timers := filter (\<lambda>t. \<not> tm_due t \<le> clock s1) (timers s1)\<rparr>
      in foldl (\<lambda>acc t. fire t acc) s2 due)"

definition verified_doctors_request :: request where
  "verified_doctors_request =
     Db_select_order ''doctors'' ''verification_status'' ''verified'' ''rating'' False"

definition verified_doctors_cacheKey :: string where
  "verified_doctors_cacheKey = getCacheKey ''doctors'' (JObj [(''verified'', JBool True)])"


text \<open>
  \<open>getVerifiedDoctors\<close> after \<open>await debounceQuery(...)\<close>, for the caller \<open>c\<close> waiting on
  promise \<open>p\<close>: the result is stored and returned, an error is logged and \<open>[]\<close> returned.
\<close>

definition resume :: "nat \<Rightarrow> error + json \<Rightarrow> machine \<Rightarrow> machine" where
  "resume p outcome s =
     (case map_of (waiting s) p of
        None \<Rightarrow> s
      | Some c \<Rightarrow>
          (let s1 = s\<lparr>waiting := filter (\<lambda>w. fst w \<noteq> p) (waiting s)\<rparr>
           in case outcome of
                Inr result \<Rightarrow>
                  (let s2 = setCachedData verified_doctors_cacheKey result s1
                   in s2\<lparr>returned := (returned s2)(c \<mapsto> result)\<rparr>)
              | Inl e \<Rightarrow>
                  s1\<lparr>console_out := console_out s1 @ [MsgErr ERROR ''Get verified doctors error:'' e],
                     returned := (returned s1)(c \<mapsto> JArr [])\<rparr>))"

text \<open>
  The promise returned by the query function that timer \<open>tid\<close> started settles: the
  callback resolves or rejects its promise, and deletes the key in \<open>finally\<close>.
\<close>

definition answer :: "nat \<Rightarrow> error + json \<Rightarrow> machine \<Rightarrow> machine" where
  "answer tid outcome s =
     (case find (\<lambda>t. tm_id t = tid) (flights s) of
        None \<Rightarrow> s
      | Some t \<Rightarrow>
          resume (tm_promise t) outcome
            (s\<lparr>flights := filter (\<lambda>t. tm_id t \<noteq> tid) (flights s),
               promises := (promises s)(tm_promise t \<mapsto> outcome),
               debounceMap := (debounceMap s)(tm_key t := None)\<rparr>))"

text \<open>\<open>getVerifiedDoctors\<close> up to its first \<open>await\<close>, or to its \<open>return\<close> if it has none.\<close>

definition getVerifiedDoctors :: "bool \<Rightarrow> machine \<Rightarrow> machine" where
  "getVerifiedDoctors configured s =
     (let c = next_caller s; s0 = s\<lparr>next_caller := Suc c\<rparr>
      in if \<not> configured then s0\<lparr>returned := (returned s0)(c \<mapsto> JArr [])\<rparr>
         else
           (let cacheKey = verified_doctors_cacheKey;
                cachedData = getCachedData cacheKey s0
            in if truthy cachedData then s0\<lparr>returned := (returned s0)(c \<mapsto> cachedData)\<rparr>
               else
                 (case debounceQuery ''verified_doctors'' verified_doctors_request 300 s0 of
                    (p, s1) \<Rightarrow> s1\<lparr>waiting := waiting s1 @ [(p, c)]\<rparr>)))"

datatype event =
    DebounceQuery string request nat
  | GetVerifiedDoctors
  | Elapse nat
  | Answer nat "error + json"

definition step :: "bool \<Rightarrow> machine \<Rightarrow> event \<Rightarrow> machine" where
  "step configured s e =
     (case e of
        DebounceQuery key queryFn delay_ms \<Rightarrow> snd (debounceQuery key queryFn delay_ms s)
      | GetVerifiedDoctors \<Rightarrow> getVerifiedDoctors configured s
      | Elapse d \<Rightarrow> elapse d s
      | Answer tid outcome \<Rightarrow> answer tid outcome s)"

definition run_events :: "bool \<Rightarrow> machine \<Rightarrow> event list \<Rightarrow> machine" where
  "run_events configured s es = foldl (step configured) s es"

section \<open>Sample services and inputs\<close>

text \<open>A service that never answers, one that answers every request after 100 ms with
  an error, and one whose requests all succeed after 100 ms.\<close>

definition silent_backend :: backend where
  "silent_backend =
     \<lparr>b_auth = (\<lambda>_. Never), b_signOut = (\<lambda>_. Never), b_getUser = (\<lambda>_. Never),
      b_getSession = (\<lambda>_. Never), b_db = (\<lambda>_. Never), b_upload = (\<lambda>_. Never),
      b_publicUrl = (\<lambda>_ _. Inl (ServiceError ''unreachable'')), b_fetch = (\<lambda>_. Never)\<rparr>"

definition failing_backend :: "error \<Rightarrow> backend" where
  "failing_backend e =
     \<lparr>b_auth = (\<lambda>_. Settles 100 (Inr \<lparr>auth_data = None, auth_error = Some e\<rparr>)),
      b_signOut = (\<lambda>_. Settles 100 (Inr \<lparr>signout_error = Some e\<rparr>)),
      b_getUser = (\<lambda>_. Settles 100 (Inr \<lparr>getuser_data = Some None, getuser_error = Some e\<rparr>)),
      b_getSession =
        (\<lambda>_. Settles 100 (Inr \<lparr>getsession_data = Some None, getsession_error = Some e\<rparr>)),
      b_db = (\<lambda>_. Settles 100 (Inr \<lparr>db_data = JNull, db_error = Some e\<rparr>)),
      b_upload = (\<lambda>_. Settles 100 (Inr \<lparr>upload_error = Some e\<rparr>)),
      b_publicUrl = (\<lambda>_ _. Inl e),
      b_fetch = (\<lambda>_. Settles 100 (Inr \<lparr>resp_ok = False,
                   resp_json = Settles 0 (Inr (JObj [(''error'', JStr (message e))]))\<rparr>))\<rparr>"


definition sample_user :: user where
  "sample_user = \<lparr>user_id = ''u-1'', user_metadata = None\<rparr>"

definition sample_doctor :: user where
  "sample_doctor =
     \<lparr>user_id = ''u-2'',
      user_metadata = Some \<lparr>md_name = Some ''Dr A'', md_user_type = Some ''doctor''\<rparr>\<rparr>"

definition working_backend :: backend where
  "working_backend =
     \<lparr>b_auth = (\<lambda>_. Settles 100 (Inr \<lparr>auth_data =
                   Some \<lparr>data_user = Some sample_user, data_session = None\<rparr>,
                   auth_error = None\<rparr>)),
      b_signOut = (\<lambda>_. Settles 100 (Inr \<lparr>signout_error = None\<rparr>)),
      b_getUser = (\<lambda>_. Settles 100 (Inr \<lparr>getuser_data = Some (Some sample_user),
                                           getuser_error = None\<rparr>)),
      b_getSession =
        (\<lambda>_. Settles 100 (Inr \<lparr>getsession_data =
                   Some (Some \<lparr>session_user = Some sample_user\<rparr>),
                   getsession_error = None\<rparr>)),
      b_db = (\<lambda>_. Settles 100 (Inr \<lparr>db_data = JObj [(''id'', JStr ''row-1'')],
                                     db_error = None\<rparr>)),
      b_upload = (\<lambda>_. Settles 100 (Inr \<lparr>upload_error = None\<rparr>)),
      b_publicUrl = (\<lambda>bucket path. Inr (''https://cdn.example/'' @ bucket @ ''/'' @ path)),
      b_fetch = (\<lambda>_. Settles 100 (Inr \<lparr>resp_ok = True,
                   resp_json = Settles 0 (Inr (JObj [(''success'', JBool True)]))\<rparr>))\<rparr>"

definition signed_out :: hook_state where
  "signed_out = \<lparr>hs_user = None, hs_profile = JNull, hs_loading = False\<rparr>"

definition signed_in :: hook_state where
  "signed_in =
     \<lparr>hs_user = Some \<lparr>au_user = sample_user, au_profile = Some (JObj [(''id'', JStr ''row-1'')]),
                      au_userType = Some ''patient''\<rparr>,
      hs_profile = JObj [(''id'', JStr ''row-1'')], hs_loading = False\<rparr>"

text \<open>A service that works, except that every query of the database fails.\<close>

definition no_profile_backend :: "error \<Rightarrow> backend" where
  "no_profile_backend e =
     working_backend\<lparr>b_db := (\<lambda>_. Settles 100 (Inr \<lparr>db_data = JNull, db_error = Some e\<rparr>))\<rparr>"

text \<open>
  The failure a call of the SDK reports, if any, and when: its promise is rejected, or
  it is fulfilled with a response whose \<open>error\<close> is set.
\<close>

definition reported :: "('r \<Rightarrow> error option) \<Rightarrow> 'r promise \<Rightarrow> (nat \<times> error) option" where
  "reported err p =
     (case p of
        Never \<Rightarrow> None
      | Settles t (Inl e) \<Rightarrow> Some (t, e)
      | Settles t (Inr r) \<Rightarrow> (case err r of None \<Rightarrow> None | Some e \<Rightarrow> Some (t, e)))"

text \<open>A call has not settled within \<open>ms\<close> milliseconds.\<close>

definition overdue :: "'a promise \<Rightarrow> nat \<Rightarrow> bool" where
  "overdue p ms = (case p of Never \<Rightarrow> True | Settles t r \<Rightarrow> ms < t)"

definition scan :: js_file where
  "scan = \<lparr>file_name = ''scan.final.png''\<rparr>"

definition booking :: "(string \<times> json) list" where
  "booking =
     [(''patient_id'', JStr ''p-1''), (''doctor_id'', JStr ''d-9''),
      (''duration_minutes'', JNum 30)]"

text \<open>The profile that \<open>loadUserProfile\<close> asks for.\<close>

definition profile_lookup :: "bool \<Rightarrow> backend \<Rightarrow> user \<Rightarrow> json run" where
  "profile_lookup c b u =
     (if userType_of u = ''patient'' then getPatientProfile c b (user_id u)
      else getDoctorProfile c b (user_id u))"

text \<open>
  Calls of \<open>debounceQuery\<close> with the same key, one after the other, with the given
  number of milliseconds between one call and the next.
\<close>

definition burst :: "string \<Rightarrow> request \<Rightarrow> nat \<Rightarrow> nat list \<Rightarrow> event list" where
  "burst key queryFn delay_ms gaps =
     DebounceQuery key queryFn delay_ms #
     concat (map (\<lambda>g. [Elapse g, DebounceQuery key queryFn delay_ms]) gaps)"

text \<open>
  The state after such calls, made from a state \<open>s\<close> with no timer pending: only the
  timer of the last call is pending.
\<close>

definition pending_last :: "machine \<Rightarrow> string \<Rightarrow> request \<Rightarrow> nat \<Rightarrow> nat list \<Rightarrow> machine" where
  "pending_last s key queryFn delay_ms gaps =
     s\<lparr>clock := clock s + int (sum_list gaps),
       timers := [\<lparr>tm_id = next_timer s + length gaps,
                   tm_due = clock s + int (sum_list gaps) + int delay_ms,
                   tm_key = key, tm_query = queryFn,
                   tm_promise = next_promise s + length gaps\<rparr>],
       next_timer := Suc (next_timer s + length gaps),
       debounceMap := (debounceMap s)(key \<mapsto> next_timer s + length gaps),
       next_promise := Suc (next_promise s + length gaps)\<rparr>"

text \<open>
  No timer is pending, and the queries in flight and the waiting callers carry
  identifiers handed out before: what every reachable state with no pending timer is.
\<close>

definition quiet :: "machine \<Rightarrow> bool" where
  "quiet s =
     (timers s = [] \<and>
      (\<forall>t\<in>set (flights s). tm_id t < next_timer s) \<and>
      (\<forall>w\<in>set (waiting s). fst w < next_promise s))"

text \<open>The identifiers in use have all been handed out already.\<close>

definition fresh_ids :: "machine \<Rightarrow> bool" where
  "fresh_ids s =
     ((\<forall>t\<in>set (timers s). tm_id t < next_timer s) \<and>
      (\<forall>t\<in>set (flights s). tm_id t < next_timer s) \<and>
      (\<forall>w\<in>set (waiting s). fst w < next_promise s))"

text \<open>A state in which a query for another key is in flight.\<close>

definition busy_state :: machine where
  "busy_state = run_events True (init 0) [DebounceQuery ''other'' Auth_getSession 300, Elapse 300]"


definition doctors :: "json list" where
  "doctors = [JObj [(''name'', JStr ''A''), (''rating'', JNum 5)],
              JObj [(''name'', JStr ''B''), (''rating'', JNum 4)]]"





text \<open>
  A promise that has been handed out, is not settled, and that no pending timer and no
  query in flight refers to; and a caller of \<open>getVerifiedDoctors\<close> that has no result
  and waits for such a promise only.
\<close>

definition orphaned :: "nat \<Rightarrow> machine \<Rightarrow> bool" where
  "orphaned p s =
     (p < next_promise s \<and> promises s p = None \<and>
      (\<forall>t\<in>set (timers s). tm_promise t \<noteq> p) \<and>
      (\<forall>t\<in>set (flights s). tm_promise t \<noteq> p))"

definition stranded :: "nat \<Rightarrow> nat \<Rightarrow> machine \<Rightarrow> bool" where
  "stranded c p s =
     (orphaned p s \<and> c < next_caller s \<and> returned s c = None \<and>
      (\<forall>w\<in>set (waiting s). snd w = c \<longrightarrow> fst w = p))"

section \<open>Basic facts about runs\<close>

lemma race_settles: "\<exists>t r. race p ms msg = Settles t r \<and> t \<le> ms"
  by (cases p) (auto simp: race_def)

lemma race_Never [simp]: "race Never ms msg = Settles ms (Inl (Error msg))"
  by (simp add: race_def)

lemma race_late [simp]: "ms < t \<Longrightarrow> race (Settles t r) ms msg = Settles ms (Inl (Error msg))"
  by (simp add: race_def)

lemma race_in_time [simp]: "t \<le> ms \<Longrightarrow> race (Settles t r) ms msg = Settles t r"
  by (simp add: race_def)

lemma delay_simps [simp]:
  "delay t Never = Never"
  "delay t (Settles u r) = Settles (t + u) r"
  by (simp_all add: delay_def)

lemmas run_defs =
  await_def try_catch_def race_timeout_def sdk_def resolve_def throw_def console_write_def

section \<open>getCurrentUser\<close>

text \<open>
  C10. \<open>authService.getCurrentUser\<close> never rejects and always settles within five
  seconds: with the configuration absent it resolves with \<open>null\<close> at once and sends
  nothing; when the user fetch times out (it never settles, or settles after five
  seconds) or is rejected, it resolves with \<open>null\<close>; otherwise it resolves with the
  \<open>user\<close> of the response, which is \<open>null\<close> when the service reports a failure.
\<close>

theorem getCurrentUser_never_rejects:
  "(\<exists>t u. settled (authService_getCurrentUser c b) = Settles t (Inr u) \<and> t \<le> 5000) \<and>
   (\<not> c \<longrightarrow> settled (authService_getCurrentUser c b) = Settles 0 (Inr None)
            \<and> requests (authService_getCurrentUser c b) = []) \<and>
   (c \<and> overdue (b_getUser b Auth_getUser) 5000 \<longrightarrow>
      settled (authService_getCurrentUser c b) = Settles 5000 (Inr None)) \<and>
   (c \<and> b_getUser b Auth_getUser = Settles t (Inl e) \<and> t \<le> 5000 \<longrightarrow>
      settled (authService_getCurrentUser c b) = Settles t (Inr None)) \<and>
   (c \<and> b_getUser b Auth_getUser = Settles t (Inr resp) \<and> t \<le> 5000 \<longrightarrow>
      settled (authService_getCurrentUser c b) =
        Settles t (Inr (case getuser_data resp of None \<Rightarrow> None | Some u \<Rightarrow> u)))"
  by (cases "b_getUser b Auth_getUser")
     (auto simp: authService_getCurrentUser_def run_defs race_def overdue_def Let_def
           split: promise.splits sum.splits option.splits)

theorem getCurrentUser_never_rejects_witness:
  "settled (authService_getCurrentUser True silent_backend) = Settles 5000 (Inr None) \<and>
   settled (authService_getCurrentUser True (failing_backend (ServiceError ''down'')))
     = Settles 100 (Inr None) \<and>
   settled (authService_getCurrentUser False working_backend) = Settles 0 (Inr None) \<and>
   settled (authService_getCurrentUser True working_backend) = Settles 100 (Inr (Some sample_user))"
  using getCurrentUser_never_rejects [of True silent_backend]
        getCurrentUser_never_rejects [of True "failing_backend (ServiceError ''down'')" 100 _
          "\<lparr>getuser_data = Some None, getuser_error = Some (ServiceError ''down'')\<rparr>"]
        getCurrentUser_never_rejects [of False working_backend]
        getCurrentUser_never_rejects [of True working_backend 100 _
          "\<lparr>getuser_data = Some (Some sample_user), getuser_error = None\<rparr>"]
  by (simp add: silent_backend_def failing_backend_def working_backend_def overdue_def)

lemma reportedD:
  "reported err p = Some (t, e) \<Longrightarrow>
     p = Settles t (Inl e) \<or> (\<exists>r. p = Settles t (Inr r) \<and> err r = Some e)"
  by (auto simp: reported_def split: promise.splits sum.splits option.splits)

section \<open>uploadImage\<close>

lemma uploadImage_configured:
  "settled (uploadImage True b now rand f bucket) =
     (case b_upload b (Storage_upload bucket (upload_filePath now rand f) f) of
        Never \<Rightarrow> Never
      | Settles t (Inl e) \<Rightarrow> Settles t (Inr (mock_upload_url f))
      | Settles t (Inr r) \<Rightarrow>
          (case upload_error r of
             Some e \<Rightarrow> Settles t (Inr (mock_upload_url f))
           | None \<Rightarrow>
               (case b_publicUrl b bucket (upload_filePath now rand f) of
                  Inl e \<Rightarrow> Settles t (Inr (mock_upload_url f))
                | Inr url \<Rightarrow> Settles t (Inr url))))"
  by (simp add: uploadImage_def run_defs Let_def
           split: promise.splits sum.splits option.splits)

lemma uploadImage_requests:
  "requests (uploadImage c b now rand f bucket) =
     (if c then [Storage_upload bucket (upload_filePath now rand f) f] else [])"
  by (simp add: uploadImage_def run_defs Let_def
           split: promise.splits sum.splits option.splits)

lemma uploadImage_unconfigured:
  "uploadImage False b now rand f bucket = resolve (mock_upload_url f)"
  by (simp add: uploadImage_def)

text \<open>
  C9. \<open>uploadImage\<close> never rejects, for every file and bucket. With the configuration
  absent it resolves at once with the placeholder URL and sends nothing. With the
  configuration present it sends one upload request; when that request is rejected,
  or answered with an error, or when \<open>getPublicUrl\<close> throws, it resolves with the
  placeholder URL, and otherwise with the public URL. The placeholder is
  \<open>https://example.com/mock-upload/\<close> followed by the name of the file.
\<close>

theorem uploadImage_never_rejects:
  "(\<forall>t e. settled (uploadImage c b now rand f bucket) \<noteq> Settles t (Inl e)) \<and>
   (\<not> c \<longrightarrow> settled (uploadImage c b now rand f bucket) = Settles 0 (Inr (mock_upload_url f))
            \<and> requests (uploadImage c b now rand f bucket) = []) \<and>
   (c \<longrightarrow>
      requests (uploadImage c b now rand f bucket)
        = [Storage_upload bucket (upload_filePath now rand f) f] \<and>
      settled (uploadImage c b now rand f bucket) =
        (case b_upload b (Storage_upload bucket (upload_filePath now rand f) f) of
           Never \<Rightarrow> Never
         | Settles t (Inl e) \<Rightarrow> Settles t (Inr (mock_upload_url f))
         | Settles t (Inr r) \<Rightarrow>
             (case upload_error r of
                Some e \<Rightarrow> Settles t (Inr (mock_upload_url f))
              | None \<Rightarrow>
                  (case b_publicUrl b bucket (upload_filePath now rand f) of
                     Inl e \<Rightarrow> Settles t (Inr (mock_upload_url f))
                   | Inr url \<Rightarrow> Settles t (Inr url))))) \<and>
   mock_upload_url f = ''https://example.com/mock-upload/'' @ file_name f"
proof (cases c)
  case True
  then show ?thesis
    by (auto simp: uploadImage_configured uploadImage_requests mock_upload_url_def
             split: promise.splits sum.splits option.splits)
next
  case False
  then show ?thesis
    by (simp add: uploadImage_unconfigured resolve_def mock_upload_url_def)
qed

theorem uploadImage_never_rejects_witness:
  "settled (uploadImage True (failing_backend (ServiceError ''quota'')) ''1700000000000'' ''k3j2h1''
      scan ''medical-images'')
     = Settles 100 (Inr ''https://example.com/mock-upload/scan.final.png'') \<and>
   settled (uploadImage False working_backend ''1700000000000'' ''k3j2h1'' scan ''medical-images'')
     = Settles 0 (Inr ''https://example.com/mock-upload/scan.final.png'') \<and>
   settled (uploadImage True working_backend ''1700000000000'' ''k3j2h1'' scan ''medical-images'')
     = Settles 100 (Inr ''https://cdn.example/medical-images/1700000000000-k3j2h1.png'')"
  using uploadImage_never_rejects [of True "failing_backend (ServiceError ''quota'')"
          "''1700000000000''" "''k3j2h1''" scan "''medical-images''"]
        uploadImage_never_rejects [of False working_backend
          "''1700000000000''" "''k3j2h1''" scan "''medical-images''"]
        uploadImage_never_rejects [of True working_backend
          "''1700000000000''" "''k3j2h1''" scan "''medical-images''"]
  by (simp add: failing_backend_def working_backend_def scan_def upload_filePath_def pop_def)

section \<open>What each operation does, case by case\<close>

lemma getPatientProfile_run:
  "getPatientProfile c b uid =
     (if \<not> c then throw (Error ''Supabase not configured'')
      else case b_db b (Db_select_single ''patients'' ''user_id'' uid) of
             Never \<Rightarrow> \<lparr>settled = Never, console = [],
                        requests = [Db_select_single ''patients'' ''user_id'' uid]\<rparr>
           | Settles t (Inl e) \<Rightarrow>
               \<lparr>settled = Settles t (Inl e), console = [],
                requests = [Db_select_single ''patients'' ''user_id'' uid]\<rparr>
           | Settles t (Inr r) \<Rightarrow>
               \<lparr>settled = Settles t (case db_error r of Some e \<Rightarrow> Inl e | None \<Rightarrow> Inr (db_data r)),
                console = [], requests = [Db_select_single ''patients'' ''user_id'' uid]\<rparr>)"
  by (simp add: getPatientProfile_def run_defs split: promise.splits sum.splits option.splits)

lemma getDoctorProfile_run:
  "getDoctorProfile c b uid =
     (if \<not> c then throw (Error ''Supabase not configured'')
      else case b_db b (Db_select_single ''doctors'' ''user_id'' uid) of
             Never \<Rightarrow> \<lparr>settled = Never, console = [],
                        requests = [Db_select_single ''doctors'' ''user_id'' uid]\<rparr>
           | Settles t (Inl e) \<Rightarrow>
               \<lparr>settled = Settles t (Inl e), console = [],
                requests = [Db_select_single ''doctors'' ''user_id'' uid]\<rparr>
           | Settles t (Inr r) \<Rightarrow>
               \<lparr>settled = Settles t (case db_error r of Some e \<Rightarrow> Inl e | None \<Rightarrow> Inr (db_data r)),
                console = [], requests = [Db_select_single ''doctors'' ''user_id'' uid]\<rparr>)"
  by (simp add: getDoctorProfile_def run_defs split: promise.splits sum.splits option.splits)

lemma profile_console:
  "console (getPatientProfile c b uid) = []" "console (getDoctorProfile c b uid) = []"
  by (simp_all add: getPatientProfile_run getDoctorProfile_run throw_def
        split: promise.splits sum.splits option.splits)

lemma profile_requests:
  "requests (getPatientProfile c b uid) =
     (if c then [Db_select_single ''patients'' ''user_id'' uid] else [])"
  "requests (getDoctorProfile c b uid) =
     (if c then [Db_select_single ''doctors'' ''user_id'' uid] else [])"
  by (simp_all add: getPatientProfile_run getDoctorProfile_run throw_def
        split: promise.splits sum.splits option.splits)

lemma lookup_caught:
  "settled m = Settles t (Inl e) \<Longrightarrow>
   try_catch m (\<lambda>profileError.
       await (console_write (Msg LOG msg)) (\<lambda>_. resolve JNull)) =
     \<lparr>settled = Settles t (Inr JNull), console = console m @ [Msg LOG msg],
      requests = requests m\<rparr>"
  by (simp add: try_catch_def await_def console_write_def resolve_def)

lemma lookup_passed:
  "settled m = Settles t (Inr x) \<Longrightarrow> try_catch m h = m"
  "settled m = Never \<Longrightarrow> try_catch m h = m"
  by (simp_all add: try_catch_def)

lemma profile_lookup_effects:
  "console (profile_lookup c b u) = []"
  "requests (profile_lookup c b u) =
     (if c then [Db_select_single (if userType_of u = ''patient'' then ''patients'' else ''doctors'')
                   ''user_id'' (user_id u)] else [])"
  by (simp_all add: profile_lookup_def profile_console profile_requests)

lemma loadUserProfile_run:
  "loadUserProfile c b u st =
     (case settled (profile_lookup c b u) of
        Never \<Rightarrow>
          (\<lparr>settled = Never, console = [], requests = requests (profile_lookup c b u)\<rparr>, st)
      | Settles t (Inl e) \<Rightarrow>
          (\<lparr>settled = Settles t (Inr ()),
            console = [Msg LOG ''Profile not found, user can still use basic features''],
            requests = requests (profile_lookup c b u)\<rparr>,
           st\<lparr>hs_user := Some \<lparr>au_user = u, au_profile = Some JNull,
                                au_userType = Some (userType_of u)\<rparr>,
              hs_profile := JNull\<rparr>)
      | Settles t (Inr prof) \<Rightarrow>
          (\<lparr>settled = Settles t (Inr ()), console = [],
            requests = requests (profile_lookup c b u)\<rparr>,
           st\<lparr>hs_user := Some \<lparr>au_user = u, au_profile = Some prof,
                                au_userType = Some (userType_of u)\<rparr>,
              hs_profile := prof\<rparr>))"
proof -
  define m where "m = profile_lookup c b u"
  have con: "console m = []"
    by (simp add: m_def profile_lookup_effects)
  have unfold: "loadUserProfile c b u st =
     (let lookup = try_catch m (\<lambda>profileError.
                     await (console_write (Msg LOG ''Profile not found, user can still use basic features''))
                       (\<lambda>_. resolve JNull))
      in case settled lookup of
           Never \<Rightarrow>
             (\<lparr>settled = Never, console = console lookup, requests = requests lookup\<rparr>, st)
         | Settles t (Inr userProfile) \<Rightarrow>
             (\<lparr>settled = Settles t (Inr ()), console = console lookup,
               requests = requests lookup\<rparr>,
              st\<lparr>hs_user := Some \<lparr>au_user = u, au_profile = Some userProfile,
                                   au_userType = Some (userType_of u)\<rparr>,
                 hs_profile := userProfile\<rparr>)
         | Settles t (Inl e) \<Rightarrow>
             (\<lparr>settled = Settles t (Inr ()),
               console = console lookup @ [MsgErr ERROR ''Error loading user profile:'' e],
               requests = requests lookup\<rparr>,
              st\<lparr>hs_user := Some \<lparr>au_user = u, au_profile = None,
                                   au_userType = None\<rparr>\<rparr>))"
    unfolding loadUserProfile_def m_def profile_lookup_def Let_def by (rule refl)
  show ?thesis
  proof (cases "settled m")
    case Never
    then show ?thesis
      unfolding unfold m_def [symmetric] by (simp add: lookup_passed con)
  next
    case (Settles t r)
    show ?thesis
    proof (cases r)
      case (Inl e)
      with Settles have "settled m = Settles t (Inl e)" by simp
      from lookup_caught [OF this] this show ?thesis
        unfolding unfold m_def [symmetric] by (simp add: con)
    next
      case (Inr prof)
      with Settles have "settled m = Settles t (Inr prof)" by simp
      from lookup_passed(1) [OF this] this show ?thesis
        unfolding unfold m_def [symmetric] by (simp add: con)
    qed
  qed
qed

lemma race_overdue: "overdue p ms \<Longrightarrow> race p ms msg = Settles ms (Inl (Error msg))"
  by (cases p) (auto simp: overdue_def race_def)

lemma race_reported: "reported err p = Some (t, e) \<Longrightarrow> t \<le> ms \<Longrightarrow> race p ms msg = p"
  by (auto dest!: reportedD simp: race_def)

lemma caught_rethrown:
  "settled m = Settles t (Inl e) \<Longrightarrow>
   try_catch m (\<lambda>e. await (console_write (MsgErr lv msg e)) (\<lambda>_. throw e)) =
     \<lparr>settled = Settles t (Inl e), console = console m @ [MsgErr lv msg e],
      requests = requests m\<rparr>"
  by (simp add: try_catch_def await_def console_write_def throw_def)

lemma caught_logged:
  "settled m = Settles t (Inl e) \<Longrightarrow>
   try_catch m (\<lambda>e. console_write (MsgErr lv msg e)) =
     \<lparr>settled = Settles t (Inr ()), console = console m @ [MsgErr lv msg e],
      requests = requests m\<rparr>"
  by (simp add: try_catch_def console_write_def)

lemma sdk_raced [simp]:
  "settled (race_timeout (sdk f req) ms msg) = race (f req) ms msg"
  "console (race_timeout (sdk f req) ms msg) = []"
  "requests (race_timeout (sdk f req) ms msg) = [req]"
  by (simp_all add: race_timeout_def sdk_def)

text \<open>signIn\<close>

lemma signIn_rejected:
  assumes "race (b_auth b (Auth_signInWithPassword email pw)) 8000 ''Sign in request timed out''
             = Settles t (Inl e)"
  shows "authService_signIn True b email pw =
           \<lparr>settled = Settles t (Inl e), console = [MsgErr ERROR ''Sign in error:'' e],
            requests = [Auth_signInWithPassword email pw]\<rparr>"
  using assms by (simp add: authService_signIn_def run_defs)

lemma signIn_error:
  assumes "race (b_auth b (Auth_signInWithPassword email pw)) 8000 ''Sign in request timed out''
             = Settles t (Inr r)" and "auth_error r = Some e"
  shows "authService_signIn True b email pw =
           \<lparr>settled = Settles t (Inl e), console = [MsgErr ERROR ''Sign in error:'' e],
            requests = [Auth_signInWithPassword email pw]\<rparr>"
  using assms by (simp add: authService_signIn_def run_defs)

lemma signIn_passed:
  assumes "race (b_auth b (Auth_signInWithPassword email pw)) 8000 ''Sign in request timed out''
             = Settles t (Inr r)" and "auth_error r = None"
  shows "authService_signIn True b email pw =
           \<lparr>settled = Settles t (Inr (auth_data r)), console = [],
            requests = [Auth_signInWithPassword email pw]\<rparr>"
  using assms by (simp add: authService_signIn_def run_defs)

lemma signIn_timeout:
  "overdue (b_auth b (Auth_signInWithPassword email pw)) 8000 \<Longrightarrow>
   authService_signIn True b email pw =
     \<lparr>settled = Settles 8000 (Inl (Error ''Sign in request timed out'')),
      console = [MsgErr ERROR ''Sign in error:'' (Error ''Sign in request timed out'')],
      requests = [Auth_signInWithPassword email pw]\<rparr>"
  by (rule signIn_rejected) (rule race_overdue)


lemma signIn_bounded:
  "\<exists>t r. settled (authService_signIn c b email pw) = Settles t r \<and> t \<le> 8000"
proof (cases c)
  case False
  then show ?thesis
    by (simp add: authService_signIn_def try_catch_def throw_def await_def console_write_def)
next
  case True
  obtain t r where r: "race (b_auth b (Auth_signInWithPassword email pw)) 8000
      ''Sign in request timed out'' = Settles t r" and t: "t \<le> 8000"
    using race_settles by blast
  show ?thesis
  proof (cases r)
    case (Inl e)
    with signIn_rejected [of b email pw t e] r t True show ?thesis by simp
  next
    case (Inr resp)
    show ?thesis
    proof (cases "auth_error resp")
      case None
      with signIn_passed [of b email pw t resp] r Inr t True show ?thesis by simp
    next
      case (Some e)
      with signIn_error [of b email pw t resp e] r Inr t True show ?thesis by simp
    qed
  qed
qed

text \<open>signUp\<close>

lemma signUp_rejected:
  assumes "race (b_auth b (Auth_signUp email pw name ut)) 10000 ''Sign up request timed out''
             = Settles t (Inl e)"
  shows "authService_signUp True b now email pw name ut =
           \<lparr>settled = Settles t (Inl e), console = [MsgErr ERROR ''Sign up error:'' e],
            requests = [Auth_signUp email pw name ut]\<rparr>"
  using assms by (simp add: authService_signUp_def run_defs)


lemma signUp_timeout:
  "overdue (b_auth b (Auth_signUp email pw name ut)) 10000 \<Longrightarrow>
   authService_signUp True b now email pw name ut =
     \<lparr>settled = Settles 10000 (Inl (Error ''Sign up request timed out'')),
      console = [MsgErr ERROR ''Sign up error:'' (Error ''Sign up request timed out'')],
      requests = [Auth_signUp email pw name ut]\<rparr>"
  by (rule signUp_rejected) (rule race_overdue)


text \<open>signOut\<close>

lemma signOut_rejected:
  assumes "race (b_signOut b Auth_signOut) 5000 ''Sign out request timed out'' = Settles t (Inl e)"
  shows "authService_signOut True b =
           \<lparr>settled = Settles t (Inr ()),
            console = [MsgErr WARN ''Sign out error (clearing local session):'' e],
            requests = [Auth_signOut]\<rparr>"
  using assms by (simp add: authService_signOut_def run_defs)

lemma signOut_answered:
  assumes "race (b_signOut b Auth_signOut) 5000 ''Sign out request timed out'' = Settles t (Inr r)"
  shows "authService_signOut True b =
           \<lparr>settled = Settles t (Inr ()),
            console = (case signout_error r of
                         Some e \<Rightarrow> [MsgErr WARN ''Sign out error (clearing local session):'' e]
                       | None \<Rightarrow> []),
            requests = [Auth_signOut]\<rparr>"
  using assms by (simp add: authService_signOut_def run_defs split: option.splits)

lemma signOut_unconfigured:
  "authService_signOut False b =
     \<lparr>settled = Settles 0 (Inr ()),
      console = [Msg WARN ''Supabase not configured, clearing local session only''],
      requests = []\<rparr>"
  by (simp add: authService_signOut_def run_defs)

lemma signOut_timeout:
  "overdue (b_signOut b Auth_signOut) 5000 \<Longrightarrow>
   authService_signOut True b =
     \<lparr>settled = Settles 5000 (Inr ()),
      console = [MsgErr WARN ''Sign out error (clearing local session):''
                   (Error ''Sign out request timed out'')],
      requests = [Auth_signOut]\<rparr>"
  by (rule signOut_rejected) (rule race_overdue)

lemma signOut_upstream:
  assumes "reported signout_error (b_signOut b Auth_signOut) = Some (t, e)" and "t \<le> 5000"
  shows "authService_signOut True b =
     \<lparr>settled = Settles t (Inr ()),
      console = [MsgErr WARN ''Sign out error (clearing local session):'' e],
      requests = [Auth_signOut]\<rparr>"
  using reportedD [OF assms(1)] race_reported [OF assms]
  by (auto simp: signOut_rejected signOut_answered)

lemma signOut_fulfilled:
  "\<exists>t. settled (authService_signOut c b) = Settles t (Inr ()) \<and> t \<le> 5000"
proof (cases c)
  case False
  then show ?thesis by (simp add: signOut_unconfigured)
next
  case True
  obtain t r where r: "race (b_signOut b Auth_signOut) 5000 ''Sign out request timed out''
      = Settles t r" and t: "t \<le> 5000"
    using race_settles by blast
  show ?thesis
    using True t signOut_rejected [of b t] signOut_answered [of b t] r by (cases r) auto
qed

text \<open>the hook\<close>

lemma hook_signOut_fulfilled:
  "settled call = Settles t (Inr x) \<Longrightarrow> t \<le> 8000 \<Longrightarrow>
   hook_signOut call st =
     (call, st\<lparr>hs_user := None, hs_profile := JNull, hs_loading := False\<rparr>)"
  by (simp add: hook_signOut_def run_defs Let_def)

lemma hook_signOut_rejected:
  "settled (fst (hook_signOut call st)) = Settles t (Inl e) \<Longrightarrow>
   snd (hook_signOut call st) = st\<lparr>hs_user := None, hs_profile := JNull, hs_loading := False\<rparr>"
  by (simp add: hook_signOut_def Let_def)

lemma hook_signIn_rejected:
  "settled call = Settles t (Inl e) \<Longrightarrow> t \<le> 12000 \<Longrightarrow>
   hook_signIn call st =
     (\<lparr>settled = Settles t (Inl e), console = console call @ [MsgErr ERROR ''Sign in error:'' e],
       requests = requests call\<rparr>, st\<lparr>hs_loading := False\<rparr>)"
  by (simp add: hook_signIn_def run_defs Let_def)

lemma hook_signIn_timeout:
  "overdue (settled call) 12000 \<Longrightarrow>
   hook_signIn call st =
     (\<lparr>settled = Settles 12000
         (Inl (Error ''Sign in timeout - please check your connection and try again'')),
       console = console call @ [MsgErr ERROR ''Sign in error:''
         (Error ''Sign in timeout - please check your connection and try again'')],
       requests = requests call\<rparr>, st\<lparr>hs_loading := False\<rparr>)"
  by (simp add: hook_signIn_def run_defs Let_def race_overdue)

lemma hook_signUp_rejected:
  "settled call = Settles t (Inl e) \<Longrightarrow> t \<le> 15000 \<Longrightarrow>
   hook_signUp call st =
     (\<lparr>settled = Settles t (Inl e), console = console call @ [MsgErr ERROR ''Sign up error:'' e],
       requests = requests call\<rparr>, st\<lparr>hs_loading := False\<rparr>)"
  by (simp add: hook_signUp_def run_defs Let_def)

text \<open>session fetch\<close>

lemma getInitialSession_rejected:
  assumes "race (b_getSession b Auth_getSession) 8000 ''Session timeout'' = Settles t (Inl e)"
  shows "getInitialSession True b st =
     (\<lparr>settled = Settles t (Inr ()),
       console = [MsgData WARN ''Error getting initial session (using offline mode):''
                    (JStr (message e))],
       requests = [Auth_getSession]\<rparr>, st\<lparr>hs_loading := False\<rparr>)"
  using assms by (simp add: getInitialSession_def supabase_auth_getSession_def run_defs)

lemma getInitialSession_timeout:
  "overdue (b_getSession b Auth_getSession) 8000 \<Longrightarrow>
   getInitialSession True b st =
     (\<lparr>settled = Settles 8000 (Inr ()),
       console = [MsgData WARN ''Error getting initial session (using offline mode):''
                    (JStr ''Session timeout'')],
       requests = [Auth_getSession]\<rparr>, st\<lparr>hs_loading := False\<rparr>)"
  using getInitialSession_rejected [OF race_overdue] by (simp add: message_def)

lemma getInitialSession_unconfigured:
  "getInitialSession False b st =
     (\<lparr>settled = Settles 0 (Inr ()), console = [], requests = []\<rparr>, st\<lparr>hs_loading := False\<rparr>)"
  by (simp add: getInitialSession_def supabase_auth_getSession_def run_defs)

section \<open>Writes without configuration\<close>

lemma map_of_spread_step:
  "distinct (map fst props) \<Longrightarrow>
   map_of (foldl (\<lambda>acc (k, v). AList.update k v acc) base props) k =
     (case map_of props k of Some x \<Rightarrow> Some x | None \<Rightarrow> map_of base k)"
proof (induction props arbitrary: base)
  case Nil
  show ?case by simp
next
  case (Cons p props)
  obtain k' v' where p: "p = (k', v')" by (cases p)
  from Cons.prems p have fresh: "map_of props k' = None" and d: "distinct (map fst props)"
    by (auto simp: map_of_eq_None_iff)
  show ?case
    using fresh by (simp add: Cons.IH [OF d] p update_conv split: option.splits)
qed

lemma map_of_spread:
  "distinct (map fst props) \<Longrightarrow>
     map_of (spread base props) k =
       (case map_of props k of Some x \<Rightarrow> Some x | None \<Rightarrow> map_of base k)"
  by (simp add: spread_def map_of_spread_step)

text \<open>
  C8 (amended). With the configuration absent, \<open>createAppointment\<close>,
  \<open>createEmergencyAlert\<close>, \<open>saveChatSession\<close> and \<open>saveSymptomAnalysis\<close> resolve at
  once, send nothing, log the payload, and return \<open>{ id: 'mock-id', ...payload }\<close>:
  every property of the payload, with the identifier \<open>mock-id\<close> unless the payload has
  an \<open>id\<close> of its own. \<open>saveMedicalImage\<close> resolves at once, sends nothing, logs its
  four arguments, and returns only the identifier, the patient and the image URL.
\<close>

theorem mock_writes:
  "createAppointment False b d =
     \<lparr>settled = Settles 0 (Inr (JObj (spread [(''id'', JStr ''mock-id'')] d))),
      console = [MsgData LOG ''Mock: Appointment created'' (JObj d)], requests = []\<rparr> \<and>
   createEmergencyAlert False b d =
     \<lparr>settled = Settles 0 (Inr (JObj (spread [(''id'', JStr ''mock-id'')] d))),
      console = [MsgData LOG ''Mock: Emergency alert created'' (JObj d)], requests = []\<rparr> \<and>
   saveChatSession False b d =
     \<lparr>settled = Settles 0 (Inr (JObj (spread [(''id'', JStr ''mock-id'')] d))),
      console = [MsgData LOG ''Mock: Chat session saved'' (JObj d)], requests = []\<rparr> \<and>
   saveSymptomAnalysis False b d =
     \<lparr>settled = Settles 0 (Inr (JObj (spread [(''id'', JStr ''mock-id'')] d))),
      console = [MsgData LOG ''Mock: Symptom analysis saved'' (JObj d)], requests = []\<rparr> \<and>
   (distinct (map fst d) \<longrightarrow>
      (\<forall>k. map_of (spread [(''id'', JStr ''mock-id'')] d) k =
         (case map_of d k of
            Some x \<Rightarrow> Some x
          | None \<Rightarrow> if k = ''id'' then Some (JStr ''mock-id'') else None))) \<and>
   saveMedicalImage False b patientId imageUrl imageType aiAnalysis =
     \<lparr>settled = Settles 0 (Inr (JObj [(''id'', JStr ''mock-id''), (''patient_id'', JStr patientId),
                                      (''image_url'', JStr imageUrl)])),
      console = [MsgData LOG ''Mock: Medical image saved''
                   (JObj [(''patientId'', JStr patientId), (''imageUrl'', JStr imageUrl),
                          (''imageType'', JStr imageType), (''aiAnalysis'', aiAnalysis)])],
      requests = []\<rparr>"
  by (simp add: createAppointment_def createEmergencyAlert_def saveChatSession_def
        saveSymptomAnalysis_def saveMedicalImage_def run_defs map_of_spread split: option.splits)

theorem mock_writes_witness:
  "distinct (map fst booking) \<and>
   settled (createAppointment False silent_backend booking) =
     Settles 0 (Inr (JObj [(''id'', JStr ''mock-id''), (''patient_id'', JStr ''p-1''),
                           (''doctor_id'', JStr ''d-9''), (''duration_minutes'', JNum 30)])) \<and>
   map_of (spread [(''id'', JStr ''mock-id'')] booking) ''doctor_id'' = Some (JStr ''d-9'') \<and>
   map_of (spread [(''id'', JStr ''mock-id'')] booking) ''id'' = Some (JStr ''mock-id'')"
  using mock_writes [of silent_backend booking]
  by (simp add: booking_def spread_def)

text \<open>
  The record returned by \<open>saveMedicalImage\<close> does not carry the image type nor the
  analysis: calls that differ in both return the same record.
\<close>

theorem saveMedicalImage_drops_payload:
  "settled (saveMedicalImage False silent_backend ''p-1'' ''https://x/1.png'' ''xray''
              (JObj [(''confidence'', JNum 90)]))
     = settled (saveMedicalImage False silent_backend ''p-1'' ''https://x/1.png'' ''mri'' JNull) \<and>
   settled (saveMedicalImage False silent_backend ''p-1'' ''https://x/1.png'' ''xray''
              (JObj [(''confidence'', JNum 90)]))
     = Settles 0 (Inr (JObj [(''id'', JStr ''mock-id''), (''patient_id'', JStr ''p-1''),
                             (''image_url'', JStr ''https://x/1.png'')]))"
  by (simp add: saveMedicalImage_def run_defs)

section \<open>Profile loading\<close>

lemma userType_of_default:
  "userType_of \<lparr>user_id = uid, user_metadata = None\<rparr> = ''patient''"
  "userType_of \<lparr>user_id = uid, user_metadata = Some \<lparr>md_name = n, md_user_type = None\<rparr>\<rparr>
     = ''patient''"
  "userType_of \<lparr>user_id = uid, user_metadata = Some \<lparr>md_name = n, md_user_type = Some ty\<rparr>\<rparr>
     = (if ty = [] then ''patient'' else ty)"
  by (simp_all add: userType_of_def)

lemma loadUserProfile_never_rejects:
  "settled (fst (loadUserProfile c b u st)) \<noteq> Settles t (Inl e)"
  by (simp add: loadUserProfile_run split: promise.splits sum.splits)

lemma authStateChanged_run:
  "authStateChanged c b (Some \<lparr>session_user = Some u\<rparr>) st =
     (case settled (fst (loadUserProfile c b u st)) of
        Never \<Rightarrow> loadUserProfile c b u st
      | Settles t r \<Rightarrow>
          (fst (loadUserProfile c b u st), (snd (loadUserProfile c b u st))\<lparr>hs_loading := False\<rparr>))"
proof (cases "loadUserProfile c b u st")
  case (Pair m st')
  show ?thesis
  proof (cases "settled m")
    case Never
    with Pair show ?thesis by (simp add: authStateChanged_def)
  next
    case (Settles t r)
    have "r \<noteq> Inl e" for e
      using loadUserProfile_never_rejects [of c b u st t e] Pair Settles by simp
    then obtain x where "r = Inr x" by (cases r) auto
    with Pair Settles show ?thesis by (simp add: authStateChanged_def)
  qed
qed

lemma loadUserProfile_facts:
  "userType_of \<lparr>user_id = uid, user_metadata = None\<rparr> = ''patient'' \<and>
   userType_of \<lparr>user_id = uid, user_metadata = Some \<lparr>md_name = n, md_user_type = None\<rparr>\<rparr>
     = ''patient'' \<and>
   userType_of \<lparr>user_id = uid, user_metadata = Some \<lparr>md_name = n, md_user_type = Some ty\<rparr>\<rparr>
     = (if ty = [] then ''patient'' else ty) \<and>
   requests (fst (loadUserProfile c b u st)) =
     (if c then [Db_select_single (if userType_of u = ''patient'' then ''patients'' else ''doctors'')
                   ''user_id'' (user_id u)] else []) \<and>
   (\<forall>t e. settled (fst (loadUserProfile c b u st)) \<noteq> Settles t (Inl e)) \<and>
   (settled (profile_lookup c b u) = Settles t (Inl e) \<longrightarrow>
      fst (loadUserProfile c b u st) =
        \<lparr>settled = Settles t (Inr ()),
         console = [Msg LOG ''Profile not found, user can still use basic features''],
         requests = requests (profile_lookup c b u)\<rparr> \<and>
      snd (loadUserProfile c b u st) =
        st\<lparr>hs_user := Some \<lparr>au_user = u, au_profile = Some JNull,
                             au_userType = Some (userType_of u)\<rparr>,
           hs_profile := JNull\<rparr> \<and>
      isAuthenticated (snd (loadUserProfile c b u st)) \<and>
      snd (authStateChanged c b (Some \<lparr>session_user = Some u\<rparr>) st) =
        st\<lparr>hs_user := Some \<lparr>au_user = u, au_profile = Some JNull,
                             au_userType = Some (userType_of u)\<rparr>,
           hs_profile := JNull, hs_loading := False\<rparr>) \<and>
   (settled (profile_lookup c b u) = Settles t (Inr prof) \<longrightarrow>
      snd (loadUserProfile c b u st) =
        st\<lparr>hs_user := Some \<lparr>au_user = u, au_profile = Some prof,
                             au_userType = Some (userType_of u)\<rparr>,
           hs_profile := prof\<rparr>)"
proof -
  have req: "requests (fst (loadUserProfile c b u st)) =
     (if c then [Db_select_single (if userType_of u = ''patient'' then ''patients'' else ''doctors'')
                   ''user_id'' (user_id u)] else [])"
    by (simp add: loadUserProfile_run profile_lookup_effects split: promise.splits sum.splits)
  have nr: "\<forall>t e. settled (fst (loadUserProfile c b u st)) \<noteq> Settles t (Inl e)"
    by (simp add: loadUserProfile_run split: promise.splits sum.splits)
  have failed: "settled (profile_lookup c b u) = Settles t (Inl e) \<longrightarrow>
      fst (loadUserProfile c b u st) =
        \<lparr>settled = Settles t (Inr ()),
         console = [Msg LOG ''Profile not found, user can still use basic features''],
         requests = requests (profile_lookup c b u)\<rparr> \<and>
      snd (loadUserProfile c b u st) =
        st\<lparr>hs_user := Some \<lparr>au_user = u, au_profile = Some JNull,
                             au_userType = Some (userType_of u)\<rparr>,
           hs_profile := JNull\<rparr> \<and>
      isAuthenticated (snd (loadUserProfile c b u st)) \<and>
      snd (authStateChanged c b (Some \<lparr>session_user = Some u\<rparr>) st) =
        st\<lparr>hs_user := Some \<lparr>au_user = u, au_profile = Some JNull,
                             au_userType = Some (userType_of u)\<rparr>,
           hs_profile := JNull, hs_loading := False\<rparr>"
    by (simp add: authStateChanged_run loadUserProfile_run isAuthenticated_def)
  have loaded: "settled (profile_lookup c b u) = Settles t (Inr prof) \<longrightarrow>
      snd (loadUserProfile c b u st) =
        st\<lparr>hs_user := Some \<lparr>au_user = u, au_profile = Some prof,
                             au_userType = Some (userType_of u)\<rparr>,
           hs_profile := prof\<rparr>"
    by (simp add: loadUserProfile_run)
  show ?thesis
    using req nr failed loaded userType_of_default [of uid] by blast
qed

lemma session_fetched:
  assumes "b_getSession b Auth_getSession = Settles ts (Inr r)" and "ts \<le> 8000"
    and "getsession_data r = Some (Some sess)"
  shows "await (race_timeout (supabase_auth_getSession True b) 8000 ''Session timeout'')
           (\<lambda>r. case getsession_data r of
                   None \<Rightarrow> throw (TypeError ''Cannot destructure property of null'')
                 | Some None \<Rightarrow> resolve None
                 | Some (Some sess) \<Rightarrow> resolve (session_user sess))
         = \<lparr>settled = Settles ts (Inr (session_user sess)), console = [],
            requests = [Auth_getSession]\<rparr>"
  using assms by (simp add: supabase_auth_getSession_def run_defs)

lemma getInitialSession_never_rejects:
  "settled (fst (getInitialSession c b st)) \<noteq> Settles t (Inl e)"
  by (simp add: getInitialSession_def Let_def
        split: promise.splits sum.splits option.splits prod.splits)

lemma authStateChanged_never_rejects:
  "settled (fst (authStateChanged c b sess st)) \<noteq> Settles t (Inl e)"
  by (simp add: authStateChanged_def resolve_def loadUserProfile_never_rejects
        split: promise.splits sum.splits option.splits prod.splits)

lemma getInitialSession_with_user:
  assumes "b_getSession b Auth_getSession = Settles ts (Inr r)" and "ts \<le> 8000"
    and "getsession_data r = Some (Some sess)" and "session_user sess = Some u"
  shows "getInitialSession True b st =
     (case settled (fst (loadUserProfile True b u st)) of
        Never \<Rightarrow>
          (\<lparr>settled = Never, console = console (fst (loadUserProfile True b u st)),
            requests = Auth_getSession # requests (fst (loadUserProfile True b u st))\<rparr>,
           snd (loadUserProfile True b u st))
      | Settles t' r' \<Rightarrow>
          (\<lparr>settled = Settles (ts + t') (Inr ()),
            console = console (fst (loadUserProfile True b u st)),
            requests = Auth_getSession # requests (fst (loadUserProfile True b u st))\<rparr>,
           (snd (loadUserProfile True b u st))\<lparr>hs_loading := False\<rparr>))"
proof (cases "loadUserProfile True b u st")
  case (Pair m st')
  have unfold: "getInitialSession True b st =
     (case settled m of
        Never \<Rightarrow>
          (\<lparr>settled = Never, console = console m, requests = Auth_getSession # requests m\<rparr>, st')
      | Settles t' (Inr x) \<Rightarrow>
          (\<lparr>settled = Settles (ts + t') (Inr ()), console = console m,
            requests = Auth_getSession # requests m\<rparr>, st'\<lparr>hs_loading := False\<rparr>)
      | Settles t' (Inl profileError) \<Rightarrow>
          (\<lparr>settled = Settles (ts + t') (Inr ()),
            console = console m @
              [MsgErr WARN ''Profile loading failed, continuing with basic auth:'' profileError],
            requests = Auth_getSession # requests m\<rparr>,
           st'\<lparr>hs_user := Some \<lparr>au_user = u, au_profile = None, au_userType = None\<rparr>,
               hs_loading := False\<rparr>))"
    unfolding getInitialSession_def Let_def session_fetched [OF assms(1-3)]
    by (simp add: assms(4) Pair split: promise.splits sum.splits)
  show ?thesis
  proof (cases "settled m")
    case Never
    with Pair unfold show ?thesis by simp
  next
    case (Settles t' r')
    have "r' \<noteq> Inl e" for e
      using loadUserProfile_never_rejects [of True b u st t' e] Pair Settles by simp
    then obtain x where "r' = Inr x" by (cases r') auto
    with Pair Settles unfold show ?thesis by simp
  qed
qed

lemma getInitialSession_profile_failed:
  assumes "b_getSession b Auth_getSession = Settles ts (Inr r)" and "ts \<le> 8000"
    and "getsession_data r = Some (Some sess)" and "session_user sess = Some u"
    and "settled (profile_lookup True b u) = Settles t (Inl e)"
  shows "getInitialSession True b st =
     (\<lparr>settled = Settles (ts + t) (Inr ()),
       console = [Msg LOG ''Profile not found, user can still use basic features''],
       requests = Auth_getSession # requests (profile_lookup True b u)\<rparr>,
      st\<lparr>hs_user := Some \<lparr>au_user = u, au_profile = Some JNull,
                           au_userType = Some (userType_of u)\<rparr>,
         hs_profile := JNull, hs_loading := False\<rparr>)"
  unfolding getInitialSession_with_user [OF assms(1-4)]
  using assms(5) by (simp add: loadUserProfile_run)

lemma getInitialSession_profile_loaded:
  assumes "b_getSession b Auth_getSession = Settles ts (Inr r)" and "ts \<le> 8000"
    and "getsession_data r = Some (Some sess)" and "session_user sess = Some u"
    and "settled (profile_lookup True b u) = Settles t (Inr prof)"
  shows "getInitialSession True b st =
     (\<lparr>settled = Settles (ts + t) (Inr ()), console = [],
       requests = Auth_getSession # requests (profile_lookup True b u)\<rparr>,
      st\<lparr>hs_user := Some \<lparr>au_user = u, au_profile = Some prof,
                           au_userType = Some (userType_of u)\<rparr>,
         hs_profile := prof, hs_loading := False\<rparr>)"
  unfolding getInitialSession_with_user [OF assms(1-4)]
  using assms(5) by (simp add: loadUserProfile_run)

lemma authStateChanged_profile_failed:
  assumes "session_user sess = Some u"
    and "settled (profile_lookup c b u) = Settles t (Inl e)"
  shows "authStateChanged c b (Some sess) st =
     (\<lparr>settled = Settles t (Inr ()),
       console = [Msg LOG ''Profile not found, user can still use basic features''],
       requests = requests (profile_lookup c b u)\<rparr>,
      st\<lparr>hs_user := Some \<lparr>au_user = u, au_profile = Some JNull,
                           au_userType = Some (userType_of u)\<rparr>,
         hs_profile := JNull, hs_loading := False\<rparr>)"
  using assms by (simp add: authStateChanged_def loadUserProfile_run)

lemma authStateChanged_profile_loaded:
  assumes "session_user sess = Some u"
    and "settled (profile_lookup c b u) = Settles t (Inr prof)"
  shows "authStateChanged c b (Some sess) st =
     (\<lparr>settled = Settles t (Inr ()), console = [],
       requests = requests (profile_lookup c b u)\<rparr>,
      st\<lparr>hs_user := Some \<lparr>au_user = u, au_profile = Some prof,
                           au_userType = Some (userType_of u)\<rparr>,
         hs_profile := prof, hs_loading := False\<rparr>)"
  using assms by (simp add: authStateChanged_def loadUserProfile_run)

text \<open>
  C7. A session becomes available on two paths, the fetch of the initial session
  (\<open>getInitialSession\<close>) and the callback for authentication changes; both hand the
  user of the session to \<open>loadUserProfile\<close>. It takes the user type from the metadata,
  \<open>patient\<close> when the metadata or the field is absent (or empty), and asks for the
  matching profile: table \<open>patients\<close> for a patient, \<open>doctors\<close> otherwise. None of
  the three ever rejects. When the lookup fails, for any error and at any time, the
  failure is logged and not surfaced, and on both paths the user is set with a \<open>null\<close>
  profile and the derived user type, so the hook reports the user as authenticated.
  When the lookup succeeds the profile is set.
\<close>

theorem profile_failure_swallowed:
  "userType_of \<lparr>user_id = uid, user_metadata = None\<rparr> = ''patient'' \<and>
   userType_of \<lparr>user_id = uid, user_metadata = Some \<lparr>md_name = n, md_user_type = None\<rparr>\<rparr>
     = ''patient'' \<and>
   userType_of \<lparr>user_id = uid, user_metadata = Some \<lparr>md_name = n, md_user_type = Some ty\<rparr>\<rparr>
     = (if ty = [] then ''patient'' else ty) \<and>
   requests (fst (loadUserProfile c b u st)) =
     (if c then [Db_select_single (if userType_of u = ''patient'' then ''patients'' else ''doctors'')
                   ''user_id'' (user_id u)] else []) \<and>
   (\<forall>t e. settled (fst (loadUserProfile c b u st)) \<noteq> Settles t (Inl e)) \<and>
   (settled (profile_lookup c b u) = Settles t (Inl e) \<longrightarrow>
      fst (loadUserProfile c b u st) =
        \<lparr>settled = Settles t (Inr ()),
         console = [Msg LOG ''Profile not found, user can still use basic features''],
         requests = requests (profile_lookup c b u)\<rparr> \<and>
      snd (loadUserProfile c b u st) =
        st\<lparr>hs_user := Some \<lparr>au_user = u, au_profile = Some JNull,
                             au_userType = Some (userType_of u)\<rparr>,
           hs_profile := JNull\<rparr> \<and>
      isAuthenticated (snd (loadUserProfile c b u st)) \<and>
      snd (authStateChanged c b (Some \<lparr>session_user = Some u\<rparr>) st) =
        st\<lparr>hs_user := Some \<lparr>au_user = u, au_profile = Some JNull,
                             au_userType = Some (userType_of u)\<rparr>,
           hs_profile := JNull, hs_loading := False\<rparr>) \<and>
   (settled (profile_lookup c b u) = Settles t (Inr prof) \<longrightarrow>
      snd (loadUserProfile c b u st) =
        st\<lparr>hs_user := Some \<lparr>au_user = u, au_profile = Some prof,
                             au_userType = Some (userType_of u)\<rparr>,
           hs_profile := prof\<rparr>) \<and>
   (\<forall>t e. settled (fst (getInitialSession c b st)) \<noteq> Settles t (Inl e)) \<and>
   (\<forall>t e. settled (fst (authStateChanged c b session st)) \<noteq> Settles t (Inl e)) \<and>
   (session_user sess = Some u \<and> settled (profile_lookup c b u) = Settles t (Inl e) \<longrightarrow>
      authStateChanged c b (Some sess) st =
        (\<lparr>settled = Settles t (Inr ()),
          console = [Msg LOG ''Profile not found, user can still use basic features''],
          requests = requests (profile_lookup c b u)\<rparr>,
         st\<lparr>hs_user := Some \<lparr>au_user = u, au_profile = Some JNull,
                              au_userType = Some (userType_of u)\<rparr>,
            hs_profile := JNull, hs_loading := False\<rparr>)) \<and>
   (session_user sess = Some u \<and> settled (profile_lookup c b u) = Settles t (Inr prof) \<longrightarrow>
      authStateChanged c b (Some sess) st =
        (\<lparr>settled = Settles t (Inr ()), console = [],
          requests = requests (profile_lookup c b u)\<rparr>,
         st\<lparr>hs_user := Some \<lparr>au_user = u, au_profile = Some prof,
                              au_userType = Some (userType_of u)\<rparr>,
            hs_profile := prof, hs_loading := False\<rparr>)) \<and>
   (b_getSession b Auth_getSession = Settles ts (Inr r) \<and> ts \<le> 8000 \<and>
    getsession_data r = Some (Some sess) \<and> session_user sess = Some u \<and>
    settled (profile_lookup True b u) = Settles t (Inl e) \<longrightarrow>
      getInitialSession True b st =
        (\<lparr>settled = Settles (ts + t) (Inr ()),
          console = [Msg LOG ''Profile not found, user can still use basic features''],
          requests = Auth_getSession # requests (profile_lookup True b u)\<rparr>,
         st\<lparr>hs_user := Some \<lparr>au_user = u, au_profile = Some JNull,
                              au_userType = Some (userType_of u)\<rparr>,
            hs_profile := JNull, hs_loading := False\<rparr>)) \<and>
   (b_getSession b Auth_getSession = Settles ts (Inr r) \<and> ts \<le> 8000 \<and>
    getsession_data r = Some (Some sess) \<and> session_user sess = Some u \<and>
    settled (profile_lookup True b u) = Settles t (Inr prof) \<longrightarrow>
      getInitialSession True b st =
        (\<lparr>settled = Settles (ts + t) (Inr ()), console = [],
          requests = Auth_getSession # requests (profile_lookup True b u)\<rparr>,
         st\<lparr>hs_user := Some \<lparr>au_user = u, au_profile = Some prof,
                              au_userType = Some (userType_of u)\<rparr>,
            hs_profile := prof, hs_loading := False\<rparr>))"
  using loadUserProfile_facts [of uid n ty c b u st t e prof]
        getInitialSession_never_rejects [of c b st]
        authStateChanged_never_rejects [of c b session st]
        authStateChanged_profile_failed [of sess u c b t e st]
        authStateChanged_profile_loaded [of sess u c b t prof st]
        getInitialSession_profile_failed [of b ts r sess u t e st]
        getInitialSession_profile_loaded [of b ts r sess u t prof st]
  by blast

theorem profile_failure_swallowed_witness:
  "settled (profile_lookup True (failing_backend (ServiceError ''no rows'')) sample_doctor)
     = Settles 100 (Inl (ServiceError ''no rows'')) \<and>
   snd (loadUserProfile True (failing_backend (ServiceError ''no rows'')) sample_doctor signed_out)
     = \<lparr>hs_user = Some \<lparr>au_user = sample_doctor, au_profile = Some JNull,
                         au_userType = Some ''doctor''\<rparr>,
        hs_profile = JNull, hs_loading = False\<rparr> \<and>
   requests (fst (loadUserProfile True (failing_backend (ServiceError ''no rows''))
                    sample_doctor signed_out))
     = [Db_select_single ''doctors'' ''user_id'' ''u-2''] \<and>
   settled (profile_lookup False working_backend sample_user)
     = Settles 0 (Inl (Error ''Supabase not configured'')) \<and>
   snd (loadUserProfile False working_backend sample_user signed_out)
     = \<lparr>hs_user = Some \<lparr>au_user = sample_user, au_profile = Some JNull,
                         au_userType = Some ''patient''\<rparr>,
        hs_profile = JNull, hs_loading = False\<rparr> \<and>
   settled (profile_lookup True working_backend sample_user)
     = Settles 100 (Inr (JObj [(''id'', JStr ''row-1'')])) \<and>
   snd (loadUserProfile True working_backend sample_user signed_out) = signed_in \<and>
   getInitialSession True (no_profile_backend (ServiceError ''no rows'')) signed_out =
     (\<lparr>settled = Settles 200 (Inr ()),
       console = [Msg LOG ''Profile not found, user can still use basic features''],
       requests = [Auth_getSession, Db_select_single ''patients'' ''user_id'' ''u-1'']\<rparr>,
      \<lparr>hs_user = Some \<lparr>au_user = sample_user, au_profile = Some JNull,
                        au_userType = Some ''patient''\<rparr>,
       hs_profile = JNull, hs_loading = False\<rparr>) \<and>
   getInitialSession True working_backend signed_out =
     (\<lparr>settled = Settles 200 (Inr ()), console = [],
       requests = [Auth_getSession, Db_select_single ''patients'' ''user_id'' ''u-1'']\<rparr>,
      signed_in) \<and>
   authStateChanged True (no_profile_backend (ServiceError ''no rows''))
       (Some \<lparr>session_user = Some sample_doctor\<rparr>) signed_out =
     (\<lparr>settled = Settles 100 (Inr ()),
       console = [Msg LOG ''Profile not found, user can still use basic features''],
       requests = [Db_select_single ''doctors'' ''user_id'' ''u-2'']\<rparr>,
      \<lparr>hs_user = Some \<lparr>au_user = sample_doctor, au_profile = Some JNull,
                        au_userType = Some ''doctor''\<rparr>,
       hs_profile = JNull, hs_loading = False\<rparr>) \<and>
   snd (authStateChanged True working_backend (Some \<lparr>session_user = Some sample_user\<rparr>)
          signed_out) = signed_in"
  using profile_failure_swallowed [where c = True
          and b = "failing_backend (ServiceError ''no rows'')" and u = sample_doctor
          and st = signed_out and t = 100 and e = "ServiceError ''no rows''"]
        profile_failure_swallowed [where c = False and b = working_backend and u = sample_user
          and st = signed_out and t = 0 and e = "Error ''Supabase not configured''"]
        profile_failure_swallowed [where c = True and b = working_backend and u = sample_user
          and st = signed_out and t = 100 and prof = "JObj [(''id'', JStr ''row-1'')]"
          and ts = 100 and sess = "\<lparr>session_user = Some sample_user\<rparr>"
          and r = "\<lparr>getsession_data = Some (Some \<lparr>session_user = Some sample_user\<rparr>),
                   getsession_error = None\<rparr>"]
        profile_failure_swallowed [where c = True
          and b = "no_profile_backend (ServiceError ''no rows'')" and u = sample_user
          and st = signed_out and t = 100 and e = "ServiceError ''no rows''"
          and ts = 100 and sess = "\<lparr>session_user = Some sample_user\<rparr>"
          and r = "\<lparr>getsession_data = Some (Some \<lparr>session_user = Some sample_user\<rparr>),
                   getsession_error = None\<rparr>"]
        profile_failure_swallowed [where c = True
          and b = "no_profile_backend (ServiceError ''no rows'')" and u = sample_doctor
          and st = signed_out and t = 100 and e = "ServiceError ''no rows''"
          and sess = "\<lparr>session_user = Some sample_doctor\<rparr>"]
  by (simp add: profile_lookup_def getDoctorProfile_run getPatientProfile_run throw_def
        failing_backend_def working_backend_def no_profile_backend_def sample_doctor_def
        sample_user_def userType_of_def signed_out_def signed_in_def)

section \<open>Sign-out\<close>

lemma useAuth_signOut_run:
  "\<exists>t. t \<le> 5000 \<and> settled (authService_signOut c b) = Settles t (Inr ()) \<and>
     useAuth_signOut c b st =
       (authService_signOut c b,
        st\<lparr>hs_user := None, hs_profile := JNull, hs_loading := False\<rparr>)"
proof -
  obtain t where t: "settled (authService_signOut c b) = Settles t (Inr ())" "t \<le> 5000"
    using signOut_fulfilled by blast
  then have "useAuth_signOut c b st =
       (authService_signOut c b,
        st\<lparr>hs_user := None, hs_profile := JNull, hs_loading := False\<rparr>)"
    by (simp add: useAuth_signOut_def hook_signOut_fulfilled)
  with t show ?thesis by blast
qed

text \<open>
  C6 (amended). Every sign-out through the hook is fulfilled within five seconds and
  leaves the user and the profile cleared. A remote failure, an error of the service or
  the five-second timeout, is caught and logged inside \<open>authService.signOut\<close>, so no
  error reaches the caller of the hook. The hook's own handler clears the state before
  it rethrows: whenever the hook rejects, for whatever sign-out call it is given, the
  state is cleared.
\<close>

theorem signOut_clears_state:
  "(\<exists>t. settled (fst (useAuth_signOut c b st)) = Settles t (Inr ()) \<and> t \<le> 5000) \<and>
   snd (useAuth_signOut c b st) = st\<lparr>hs_user := None, hs_profile := JNull, hs_loading := False\<rparr> \<and>
   (c \<and> reported signout_error (b_signOut b Auth_signOut) = Some (t, e) \<and> t \<le> 5000 \<longrightarrow>
      fst (useAuth_signOut c b st) =
        \<lparr>settled = Settles t (Inr ()),
         console = [MsgErr WARN ''Sign out error (clearing local session):'' e],
         requests = [Auth_signOut]\<rparr>) \<and>
   (c \<and> overdue (b_signOut b Auth_signOut) 5000 \<longrightarrow>
      fst (useAuth_signOut c b st) =
        \<lparr>settled = Settles 5000 (Inr ()),
         console = [MsgErr WARN ''Sign out error (clearing local session):''
                      (Error ''Sign out request timed out'')],
         requests = [Auth_signOut]\<rparr>) \<and>
   (settled (fst (hook_signOut call st)) = Settles t' (Inl e') \<longrightarrow>
      snd (hook_signOut call st)
        = st\<lparr>hs_user := None, hs_profile := JNull, hs_loading := False\<rparr>)"
proof -
  obtain t0 where run: "t0 \<le> 5000" "settled (authService_signOut c b) = Settles t0 (Inr ())"
     "useAuth_signOut c b st =
       (authService_signOut c b,
        st\<lparr>hs_user := None, hs_profile := JNull, hs_loading := False\<rparr>)"
    using useAuth_signOut_run by blast
  have a: "\<exists>t. settled (fst (useAuth_signOut c b st)) = Settles t (Inr ()) \<and> t \<le> 5000"
    using run by simp
  have b: "snd (useAuth_signOut c b st)
             = st\<lparr>hs_user := None, hs_profile := JNull, hs_loading := False\<rparr>"
    using run by simp
  have c: "c \<and> reported signout_error (b_signOut b Auth_signOut) = Some (t, e) \<and> t \<le> 5000 \<longrightarrow>
      fst (useAuth_signOut c b st) =
        \<lparr>settled = Settles t (Inr ()),
         console = [MsgErr WARN ''Sign out error (clearing local session):'' e],
         requests = [Auth_signOut]\<rparr>"
    using run(3) by (auto simp: signOut_upstream)
  have d: "c \<and> overdue (b_signOut b Auth_signOut) 5000 \<longrightarrow>
      fst (useAuth_signOut c b st) =
        \<lparr>settled = Settles 5000 (Inr ()),
         console = [MsgErr WARN ''Sign out error (clearing local session):''
                      (Error ''Sign out request timed out'')],
         requests = [Auth_signOut]\<rparr>"
    using run(3) by (auto simp: signOut_timeout)
  show ?thesis
    using a b c d hook_signOut_rejected [of call st t' e'] by blast
qed

theorem signOut_clears_state_witness:
  "fst (useAuth_signOut True (failing_backend (ServiceError ''down'')) signed_in) =
     \<lparr>settled = Settles 100 (Inr ()),
      console = [MsgErr WARN ''Sign out error (clearing local session):'' (ServiceError ''down'')],
      requests = [Auth_signOut]\<rparr> \<and>
   snd (useAuth_signOut True (failing_backend (ServiceError ''down'')) signed_in) = signed_out \<and>
   fst (useAuth_signOut True silent_backend signed_in) =
     \<lparr>settled = Settles 5000 (Inr ()),
      console = [MsgErr WARN ''Sign out error (clearing local session):''
                   (Error ''Sign out request timed out'')],
      requests = [Auth_signOut]\<rparr> \<and>
   snd (useAuth_signOut True silent_backend signed_in) = signed_out \<and>
   settled (fst (hook_signOut (throw (Error ''offline'')) signed_in))
     = Settles 0 (Inl (Error ''offline'')) \<and>
   snd (hook_signOut (throw (Error ''offline'')) signed_in) = signed_out"
  using signOut_clears_state [where c = True and b = "failing_backend (ServiceError ''down'')"
          and st = signed_in and t = 100 and e = "ServiceError ''down''"
          and call = "throw (Error ''offline'')" and t' = 0 and e' = "Error ''offline''"]
        signOut_clears_state [where c = True and b = silent_backend and st = signed_in]
  by (simp add: failing_backend_def silent_backend_def reported_def overdue_def
        signed_in_def signed_out_def hook_signOut_def run_defs race_def Let_def)

text \<open>
  The remote sign-out fails, with an error of the service or by timeout, and the call
  of the hook reports no error to its caller.
\<close>

theorem signOut_reports_no_error:
  "settled (fst (useAuth_signOut True (failing_backend (ServiceError ''down'')) signed_in))
     = Settles 100 (Inr ()) \<and>
   settled (fst (useAuth_signOut True silent_backend signed_in)) = Settles 5000 (Inr ())"
  by (simp add: useAuth_signOut_def hook_signOut_def authService_signOut_def run_defs race_def
        failing_backend_def silent_backend_def Let_def)

section \<open>Timeouts\<close>

lemma getCurrentUser_timeout:
  "overdue (b_getUser b Auth_getUser) 5000 \<Longrightarrow>
   authService_getCurrentUser True b =
     \<lparr>settled = Settles 5000 (Inr None),
      console = [MsgErr WARN ''Get current user error:'' (Error ''Get user request timed out'')],
      requests = [Auth_getUser]\<rparr>"
  by (simp add: authService_getCurrentUser_def run_defs race_overdue)

lemma useAuth_signIn_timeout:
  assumes "overdue (b_auth b (Auth_signInWithPassword email pw)) 8000"
  shows "useAuth_signIn True b email pw st =
     (\<lparr>settled = Settles 8000 (Inl (Error ''Sign in request timed out'')),
       console = [MsgErr ERROR ''Sign in error:'' (Error ''Sign in request timed out''),
                  MsgErr ERROR ''Sign in error:'' (Error ''Sign in request timed out'')],
       requests = [Auth_signInWithPassword email pw]\<rparr>,
      st\<lparr>hs_loading := False\<rparr>)"
  by (simp add: useAuth_signIn_def signIn_timeout [OF assms] hook_signIn_rejected)

lemma useAuth_signUp_timeout:
  assumes "overdue (b_auth b (Auth_signUp email pw name ut)) 10000"
  shows "useAuth_signUp True b now email pw name ut st =
     (\<lparr>settled = Settles 10000 (Inl (Error ''Sign up request timed out'')),
       console = [MsgErr ERROR ''Sign up error:'' (Error ''Sign up request timed out''),
                  MsgErr ERROR ''Sign up error:'' (Error ''Sign up request timed out'')],
       requests = [Auth_signUp email pw name ut]\<rparr>,
      st\<lparr>hs_loading := False\<rparr>)"
  by (simp add: useAuth_signUp_def signUp_timeout [OF assms] hook_signUp_rejected)

text \<open>
  C2 (amended). When the underlying call has not settled within the timeout of
  \<open>authService\<close>, sign-up (10 s) and sign-in (8 s) reject with an error carrying their
  own message, which the hook logs and rethrows, changing only the loading flag.
  \<open>authService.signIn\<close> always settles within 8 s, so the 12 s timer of the hook and
  its message about the connection are reached only by a call that is still pending
  after 12 s. Sign-out (5 s), the fetch of the current user (5 s) and the fetch of the
  session (8 s) catch the timeout, log it and are fulfilled.
\<close>

theorem timeouts:
  "(c \<and> overdue (b_auth b (Auth_signUp email pw name ut)) 10000 \<longrightarrow>
      useAuth_signUp c b now email pw name ut st =
        (\<lparr>settled = Settles 10000 (Inl (Error ''Sign up request timed out'')),
          console = [MsgErr ERROR ''Sign up error:'' (Error ''Sign up request timed out''),
                     MsgErr ERROR ''Sign up error:'' (Error ''Sign up request timed out'')],
          requests = [Auth_signUp email pw name ut]\<rparr>,
         st\<lparr>hs_loading := False\<rparr>)) \<and>
   (c \<and> overdue (b_auth b (Auth_signInWithPassword email pw)) 8000 \<longrightarrow>
      useAuth_signIn c b email pw st =
        (\<lparr>settled = Settles 8000 (Inl (Error ''Sign in request timed out'')),
          console = [MsgErr ERROR ''Sign in error:'' (Error ''Sign in request timed out''),
                     MsgErr ERROR ''Sign in error:'' (Error ''Sign in request timed out'')],
          requests = [Auth_signInWithPassword email pw]\<rparr>,
         st\<lparr>hs_loading := False\<rparr>)) \<and>
   (\<exists>t r. settled (authService_signIn c b email pw) = Settles t r \<and> t \<le> 8000) \<and>
   (overdue (settled call) 12000 \<longrightarrow>
      settled (fst (hook_signIn call st)) =
        Settles 12000 (Inl (Error ''Sign in timeout - please check your connection and try again'')) \<and>
      snd (hook_signIn call st) = st\<lparr>hs_loading := False\<rparr>) \<and>
   (c \<and> overdue (b_signOut b Auth_signOut) 5000 \<longrightarrow>
      authService_signOut c b =
        \<lparr>settled = Settles 5000 (Inr ()),
         console = [MsgErr WARN ''Sign out error (clearing local session):''
                      (Error ''Sign out request timed out'')],
         requests = [Auth_signOut]\<rparr>) \<and>
   (c \<and> overdue (b_getUser b Auth_getUser) 5000 \<longrightarrow>
      authService_getCurrentUser c b =
        \<lparr>settled = Settles 5000 (Inr None),
         console = [MsgErr WARN ''Get current user error:'' (Error ''Get user request timed out'')],
         requests = [Auth_getUser]\<rparr>) \<and>
   (c \<and> overdue (b_getSession b Auth_getSession) 8000 \<longrightarrow>
      getInitialSession c b st =
        (\<lparr>settled = Settles 8000 (Inr ()),
          console = [MsgData WARN ''Error getting initial session (using offline mode):''
                       (JStr ''Session timeout'')],
          requests = [Auth_getSession]\<rparr>,
         st\<lparr>hs_loading := False\<rparr>))"
  using useAuth_signUp_timeout [of b email pw name ut now st]
        useAuth_signIn_timeout [of b email pw st]
        signIn_bounded [of c b email pw]
        hook_signIn_timeout [of call st]
        signOut_timeout [of b] getCurrentUser_timeout [of b]
        getInitialSession_timeout [of b st]
  by auto

theorem timeouts_witness:
  "useAuth_signIn True silent_backend ''a@b.c'' ''pw'' signed_out =
     (\<lparr>settled = Settles 8000 (Inl (Error ''Sign in request timed out'')),
       console = [MsgErr ERROR ''Sign in error:'' (Error ''Sign in request timed out''),
                  MsgErr ERROR ''Sign in error:'' (Error ''Sign in request timed out'')],
       requests = [Auth_signInWithPassword ''a@b.c'' ''pw'']\<rparr>,
      signed_out) \<and>
   settled (fst (useAuth_signUp True silent_backend ''0'' ''a@b.c'' ''pw'' ''Ann'' ''patient''
                   signed_out))
     = Settles 10000 (Inl (Error ''Sign up request timed out'')) \<and>
   settled (authService_signOut True silent_backend) = Settles 5000 (Inr ()) \<and>
   settled (authService_getCurrentUser True silent_backend) = Settles 5000 (Inr None) \<and>
   getInitialSession True silent_backend signed_out =
        (\<lparr>settled = Settles 8000 (Inr ()),
          console = [MsgData WARN ''Error getting initial session (using offline mode):''
                       (JStr ''Session timeout'')],
          requests = [Auth_getSession]\<rparr>,
         signed_out) \<and>
   settled (fst (hook_signIn \<lparr>settled = (Never :: unit promise), console = [], requests = []\<rparr>
                   signed_out))
     = Settles 12000 (Inl (Error ''Sign in timeout - please check your connection and try again''))"
  using timeouts [of True silent_backend "''a@b.c''" "''pw''" "''Ann''" "''patient''" "''0''"
          signed_out "\<lparr>settled = (Never :: unit promise), console = [], requests = []\<rparr>"]
  by (simp add: silent_backend_def overdue_def signed_out_def)

text \<open>
  With a service that never answers, the fetch of the current user, sign-out and the
  fetch of the session are fulfilled, and sign-in through the hook rejects after 8 s
  with the message of \<open>authService\<close>.
\<close>

theorem timeouts_not_raised:
  "settled (authService_getCurrentUser True silent_backend) = Settles 5000 (Inr None) \<and>
   settled (authService_signOut True silent_backend) = Settles 5000 (Inr ()) \<and>
   settled (fst (useAuth_signOut True silent_backend signed_in)) = Settles 5000 (Inr ()) \<and>
   settled (fst (getInitialSession True silent_backend signed_out)) = Settles 8000 (Inr ()) \<and>
   settled (fst (useAuth_signIn True silent_backend ''a@b.c'' ''pw'' signed_out))
     = Settles 8000 (Inl (Error ''Sign in request timed out''))"
  by (simp add: authService_getCurrentUser_def authService_signOut_def useAuth_signOut_def
        hook_signOut_def getInitialSession_def supabase_auth_getSession_def useAuth_signIn_def
        hook_signIn_def authService_signIn_def run_defs race_def silent_backend_def Let_def)

section \<open>The machine, step by step\<close>

lemma run_events_append:
  "run_events c s (es @ es') = run_events c (run_events c s es) es'"
  by (simp add: run_events_def)

lemma run_events_simps [simp]:
  "run_events c s [] = s"
  "run_events c s (e # es) = run_events c (step c s e) es"
  by (simp_all add: run_events_def)

lemma burst_snoc:
  "burst key q dl (gaps @ [g]) = burst key q dl gaps @ [Elapse g, DebounceQuery key q dl]"
  by (simp add: burst_def)

lemma elapse_early:
  "g < dl \<Longrightarrow> elapse g (pending_last s key q dl gaps) =
     (pending_last s key q dl gaps)\<lparr>clock := clock s + int (sum_list gaps) + int g\<rparr>"
  by (simp add: elapse_def pending_last_def Let_def)

lemma burst_pending:
  "timers s = [] \<Longrightarrow> \<forall>g\<in>set gaps. g < dl \<Longrightarrow>
   run_events c s (burst key q dl gaps) = pending_last s key q dl gaps"
proof (induction gaps rule: rev_induct)
  case Nil
  then show ?case
    by (simp add: burst_def step_def debounceQuery_def clearTimeout_def pending_last_def Let_def
          split: option.splits)
next
  case (snoc g gaps)
  then have IH: "run_events c s (burst key q dl gaps) = pending_last s key q dl gaps"
    and g: "g < dl" by simp_all
  show ?case
    unfolding burst_snoc run_events_append IH
    by (simp add: step_def elapse_early [OF g])
       (simp add: debounceQuery_def pending_last_def Let_def clearTimeout_def)
qed




lemma getCachedData_next_caller [simp]:
  "getCachedData key (s\<lparr>next_caller := n\<rparr>) = getCachedData key s"
  by (simp add: getCachedData_def split: option.splits)

lemma getVerifiedDoctors_unconfigured:
  "getVerifiedDoctors False s =
     s\<lparr>next_caller := Suc (next_caller s), returned := (returned s)(next_caller s \<mapsto> JArr [])\<rparr>"
  by (simp add: getVerifiedDoctors_def Let_def)


lemma getVerifiedDoctors_miss:
  "\<not> truthy (getCachedData verified_doctors_cacheKey s) \<Longrightarrow> timers s = [] \<Longrightarrow>
   getVerifiedDoctors True s =
     s\<lparr>next_caller := Suc (next_caller s),
       timers := [\<lparr>tm_id = next_timer s, tm_due = clock s + 300, tm_key = ''verified_doctors'',
                   tm_query = verified_doctors_request, tm_promise = next_promise s\<rparr>],
       next_timer := Suc (next_timer s),
       debounceMap := (debounceMap s)(''verified_doctors'' \<mapsto> next_timer s),
       next_promise := Suc (next_promise s),
       waiting := waiting s @ [(next_promise s, next_caller s)]\<rparr>"
  by (simp add: getVerifiedDoctors_def Let_def debounceQuery_def clearTimeout_def
        split: option.splits)











section \<open>Reads without configuration\<close>

text \<open>
  C3. With the configuration absent, \<open>getVerifiedDoctors\<close> returns the empty list at
  once, setting no timer and sending nothing; \<open>getCurrentUser\<close> resolves with \<open>null\<close>
  and the fetch of the session finds no session, both without a request and without an
  error; the two profile lookups reject with the error \<open>Supabase not configured\<close>,
  without a request.
\<close>

theorem unconfigured_reads:
  "getVerifiedDoctors False s =
     s\<lparr>next_caller := Suc (next_caller s), returned := (returned s)(next_caller s \<mapsto> JArr [])\<rparr> \<and>
   sent (getVerifiedDoctors False s) = sent s \<and>
   timers (getVerifiedDoctors False s) = timers s \<and>
   authService_getCurrentUser False b =
     \<lparr>settled = Settles 0 (Inr None), console = [], requests = []\<rparr> \<and>
   getInitialSession False b st =
     (\<lparr>settled = Settles 0 (Inr ()), console = [], requests = []\<rparr>, st\<lparr>hs_loading := False\<rparr>) \<and>
   getPatientProfile False b userId =
     \<lparr>settled = Settles 0 (Inl (Error ''Supabase not configured'')), console = [],
      requests = []\<rparr> \<and>
   getDoctorProfile False b userId =
     \<lparr>settled = Settles 0 (Inl (Error ''Supabase not configured'')), console = [],
      requests = []\<rparr>"
  by (simp add: getVerifiedDoctors_unconfigured getInitialSession_unconfigured
        getPatientProfile_def getDoctorProfile_def authService_getCurrentUser_def
        try_catch_def resolve_def throw_def)

section \<open>Failures reported by the service\<close>






















section \<open>Superseded calls\<close>

text \<open>
  Nothing settles a promise once the timer that referred to it has been cleared: the
  invariants below are kept by every step of the machine, so the promise of a
  superseded call stays pending, and a caller of \<open>getVerifiedDoctors\<close> superseded
  within the delay has no result, whatever happens afterwards.
\<close>

lemma fire_all:
  "timers (foldl (\<lambda>acc t. fire t acc) s ts) = timers s"
  "flights (foldl (\<lambda>acc t. fire t acc) s ts) = flights s @ ts"
  "promises (foldl (\<lambda>acc t. fire t acc) s ts) = promises s"
  "next_promise (foldl (\<lambda>acc t. fire t acc) s ts) = next_promise s"
  "next_caller (foldl (\<lambda>acc t. fire t acc) s ts) = next_caller s"
  "returned (foldl (\<lambda>acc t. fire t acc) s ts) = returned s"
  "waiting (foldl (\<lambda>acc t. fire t acc) s ts) = waiting s"
  by (induction ts arbitrary: s) (simp_all add: fire_def)

lemma debounceQuery_fields:
  "next_promise (snd (debounceQuery key q dl s)) = Suc (next_promise s)"
  "promises (snd (debounceQuery key q dl s)) = promises s"
  "flights (snd (debounceQuery key q dl s)) = flights s"
  "next_caller (snd (debounceQuery key q dl s)) = next_caller s"
  "returned (snd (debounceQuery key q dl s)) = returned s"
  "waiting (snd (debounceQuery key q dl s)) = waiting s"
  "fst (debounceQuery key q dl s) = next_promise s"
  by (simp_all add: debounceQuery_def clearTimeout_def Let_def split: option.splits)

lemma debounceQuery_timers:
  "t \<in> set (timers (snd (debounceQuery key q dl s))) \<Longrightarrow>
     t \<in> set (timers s) \<or> tm_promise t = next_promise s"
  by (auto simp: debounceQuery_def clearTimeout_def Let_def split: option.splits)

lemma stranded_debounceQuery:
  "stranded c p s \<Longrightarrow> stranded c p (snd (debounceQuery key q dl s))"
  unfolding stranded_def orphaned_def
  by (auto simp: debounceQuery_fields dest!: debounceQuery_timers)

lemma stranded_getVerifiedDoctors:
  assumes "stranded c p s"
  shows "stranded c p (getVerifiedDoctors cfg s)"
proof -
  let ?s0 = "s\<lparr>next_caller := Suc (next_caller s)\<rparr>"
  have s0: "stranded c p ?s0"
    using assms by (simp add: stranded_def orphaned_def)
  have upd: "stranded c p (?s0\<lparr>returned := (returned ?s0)(next_caller s \<mapsto> v)\<rparr>)" for v
    using assms by (auto simp: stranded_def orphaned_def)
  show ?thesis
  proof (cases "\<not> cfg \<or> truthy (getCachedData verified_doctors_cacheKey ?s0)")
    case True
    then show ?thesis
      using upd by (auto simp: getVerifiedDoctors_def Let_def)
  next
    case False
    obtain p' s1 where d: "debounceQuery ''verified_doctors'' verified_doctors_request 300 ?s0
       = (p', s1)" by (cases "debounceQuery ''verified_doctors'' verified_doctors_request 300 ?s0")
    have s1: "stranded c p s1"
      using stranded_debounceQuery [OF s0, of "''verified_doctors''" verified_doctors_request 300] d
      by simp
    have w: "waiting s1 = waiting s"
      using debounceQuery_fields(6) [of "''verified_doctors''" verified_doctors_request 300 ?s0] d
      by simp
    have "stranded c p (s1\<lparr>waiting := waiting s1 @ [(p', next_caller s)]\<rparr>)"
      using s1 assms by (auto simp: stranded_def orphaned_def)
    with False d show ?thesis
      by (simp add: getVerifiedDoctors_def Let_def)
  qed
qed

lemma stranded_elapse: "stranded c p s \<Longrightarrow> stranded c p (elapse d s)"
  by (auto simp: stranded_def orphaned_def elapse_def Let_def fire_all)

lemma stranded_resume:
  assumes "stranded c p s" and "p' \<noteq> p"
  shows "stranded c p (resume p' outcome s)"
proof (cases "map_of (waiting s) p'")
  case None
  with assms show ?thesis by (simp add: resume_def)
next
  case (Some c')
  then have "(p', c') \<in> set (waiting s)" by (rule map_of_SomeD)
  with assms have c': "c' \<noteq> c" by (auto simp: stranded_def)
  show ?thesis
    using assms(1) Some c'
    by (cases outcome) (auto simp: resume_def stranded_def orphaned_def setCachedData_def Let_def)
qed

lemma stranded_answer: "stranded c p s \<Longrightarrow> stranded c p (answer tid outcome s)"
proof (cases "find (\<lambda>t. tm_id t = tid) (flights s)")
  case None
  assume "stranded c p s"
  with None show ?thesis by (simp add: answer_def)
next
  case (Some t)
  assume st: "stranded c p s"
  from Some have "t \<in> set (flights s)"
    by (auto simp: find_Some_iff)
  with st have ne: "tm_promise t \<noteq> p" by (auto simp: stranded_def orphaned_def)
  have "stranded c p (s\<lparr>flights := filter (\<lambda>t. tm_id t \<noteq> tid) (flights s),
               promises := (promises s)(tm_promise t \<mapsto> outcome),
               debounceMap := (debounceMap s)(tm_key t := None)\<rparr>)"
    using st ne by (auto simp: stranded_def orphaned_def)
  from stranded_resume [OF this ne] Some show ?thesis
    by (simp add: answer_def)
qed

lemma stranded_step: "stranded c p s \<Longrightarrow> stranded c p (step cfg s e)"
  by (cases e)
     (simp_all add: step_def stranded_debounceQuery stranded_getVerifiedDoctors
        stranded_elapse stranded_answer)

lemma stranded_run: "stranded c p s \<Longrightarrow> stranded c p (run_events cfg s es)"
  by (induction es arbitrary: s) (simp_all add: stranded_step)

lemma superseded_caller_never_answered:
  assumes "g < 300"
  shows "returned (run_events True (init t0)
            ([GetVerifiedDoctors, Elapse g, GetVerifiedDoctors] @ es)) 0 = None"
proof -
  have "stranded 0 0 (run_events True (init t0) [GetVerifiedDoctors, Elapse g, GetVerifiedDoctors])"
    using assms
    by (simp add: step_def getVerifiedDoctors_def getCachedData_def debounceQuery_def
          clearTimeout_def elapse_def Let_def init_def stranded_def orphaned_def)
  from stranded_run [OF this, of True es] show ?thesis
    by (simp add: run_events_append stranded_def)
qed

lemma resume_fields:
  "promises (resume p' outcome s) = promises s"
  "timers (resume p' outcome s) = timers s"
  "flights (resume p' outcome s) = flights s"
  "next_promise (resume p' outcome s) = next_promise s"
  by (simp_all add: resume_def setCachedData_def Let_def split: option.splits sum.splits)

lemma orphaned_debounceQuery:
  "orphaned p s \<Longrightarrow> orphaned p (snd (debounceQuery key q dl s))"
  unfolding orphaned_def
  by (auto simp: debounceQuery_fields dest!: debounceQuery_timers)

lemma orphaned_getVerifiedDoctors:
  assumes "orphaned p s"
  shows "orphaned p (getVerifiedDoctors cfg s)"
proof -
  let ?s0 = "s\<lparr>next_caller := Suc (next_caller s)\<rparr>"
  have s0: "orphaned p ?s0"
    using assms by (simp add: orphaned_def)
  show ?thesis
  proof (cases "\<not> cfg \<or> truthy (getCachedData verified_doctors_cacheKey ?s0)")
    case True
    then show ?thesis
      using s0 by (auto simp: getVerifiedDoctors_def Let_def orphaned_def)
  next
    case False
    obtain p' s1 where d: "debounceQuery ''verified_doctors'' verified_doctors_request 300 ?s0
       = (p', s1)" by (cases "debounceQuery ''verified_doctors'' verified_doctors_request 300 ?s0")
    have "orphaned p s1"
      using orphaned_debounceQuery [OF s0, of "''verified_doctors''" verified_doctors_request 300] d
      by simp
    then have "orphaned p (s1\<lparr>waiting := waiting s1 @ [(p', next_caller s)]\<rparr>)"
      by (simp add: orphaned_def)
    with False d show ?thesis
      by (simp add: getVerifiedDoctors_def Let_def)
  qed
qed

lemma orphaned_elapse: "orphaned p s \<Longrightarrow> orphaned p (elapse d s)"
  by (auto simp: orphaned_def elapse_def Let_def fire_all)

lemma orphaned_answer: "orphaned p s \<Longrightarrow> orphaned p (answer tid outcome s)"
proof (cases "find (\<lambda>t. tm_id t = tid) (flights s)")
  case None
  assume "orphaned p s"
  with None show ?thesis by (simp add: answer_def)
next
  case (Some t)
  assume st: "orphaned p s"
  from Some have "t \<in> set (flights s)"
    by (auto simp: find_Some_iff)
  with st have ne: "tm_promise t \<noteq> p" by (auto simp: orphaned_def)
  with st Some show ?thesis
    by (auto simp: answer_def orphaned_def resume_fields)
qed

lemma orphaned_step: "orphaned p s \<Longrightarrow> orphaned p (step cfg s e)"
  by (cases e)
     (simp_all add: step_def orphaned_debounceQuery orphaned_getVerifiedDoctors
        orphaned_elapse orphaned_answer)

lemma orphaned_run: "orphaned p s \<Longrightarrow> orphaned p (run_events cfg s es)"
  by (induction es arbitrary: s) (simp_all add: orphaned_step)

lemma superseded_promise_never_settled:
  assumes "\<forall>g\<in>set gaps. g < dl" and "i < length gaps"
  shows "promises (run_events c (init t0) (burst key q dl gaps @ es)) i = None"
proof -
  have "orphaned i (pending_last (init t0) key q dl gaps)"
    using assms(2) by (simp add: orphaned_def pending_last_def init_def)
  from orphaned_run [OF this, of c es] show ?thesis
    by (simp add: run_events_append burst_pending [OF _ assms(1)] init_def orphaned_def)
qed

section \<open>Calls within the delay\<close>

lemma burst_fired:
  assumes "timers s = []" and "\<forall>g\<in>set gaps. g < dl" and "dl \<le> d"
  shows "run_events c s (burst key q dl gaps @ [Elapse d]) =
     s\<lparr>clock := clock s + int (sum_list gaps) + int d,
       flights := flights s @
                  [\<lparr>tm_id = next_timer s + length gaps,
                    tm_due = clock s + int (sum_list gaps) + int dl,
                    tm_key = key, tm_query = q, tm_promise = next_promise s + length gaps\<rparr>],
       sent := sent s @ [q],
       next_timer := Suc (next_timer s + length gaps),
       debounceMap := (debounceMap s)(key \<mapsto> next_timer s + length gaps),
       next_promise := Suc (next_promise s + length gaps)\<rparr>"
  unfolding run_events_append burst_pending [OF assms(1,2)]
  using assms(1,3) by (simp add: step_def elapse_def pending_last_def Let_def fire_def)

lemma find_last:
  "\<forall>x\<in>set xs. \<not> P x \<Longrightarrow> P y \<Longrightarrow> find P (xs @ [y]) = Some y"
  by (induction xs) simp_all

lemma filter_all:
  "\<forall>x\<in>set xs. P x \<Longrightarrow> filter P xs = xs"
  by (induction xs) simp_all

lemma map_of_fresh:
  fixes ws :: "(nat \<times> 'a) list"
  shows "\<forall>w\<in>set ws. fst w < n \<Longrightarrow> n \<le> p \<Longrightarrow> map_of ws p = None"
  by (induction ws) auto

lemma burst_answered:
  assumes "quiet s" and "\<forall>g\<in>set gaps. g < dl" and "dl \<le> d"
  shows "run_events c s
           (burst key q dl gaps @
            [Elapse d, Elapse lat, Answer (next_timer s + length gaps) r]) =
     s\<lparr>clock := clock s + int (sum_list gaps) + int d + int lat,
       sent := sent s @ [q],
       next_timer := Suc (next_timer s + length gaps),
       debounceMap := (debounceMap s)(key := None),
       promises := (promises s)(next_promise s + length gaps \<mapsto> r),
       next_promise := Suc (next_promise s + length gaps)\<rparr>"
proof -
  from assms(1) have t: "timers s = []"
    and f: "\<forall>t\<in>set (flights s). tm_id t < next_timer s"
    and w: "\<forall>w\<in>set (waiting s). fst w < next_promise s"
    by (simp_all add: quiet_def)
  let ?T = "\<lparr>tm_id = next_timer s + length gaps,
             tm_due = clock s + int (sum_list gaps) + int dl,
             tm_key = key, tm_query = q, tm_promise = next_promise s + length gaps\<rparr>"
  have fnd: "find (\<lambda>t. tm_id t = next_timer s + length gaps) (flights s @ [?T]) = Some ?T"
    using f by (intro find_last) auto
  have flt: "filter (\<lambda>t. tm_id t \<noteq> next_timer s + length gaps) (flights s) = flights s"
    using f by (intro filter_all) auto
  have nowait: "map_of (waiting s) (next_promise s + length gaps) = None"
    using w by (rule map_of_fresh) simp
  have "run_events c s
          (burst key q dl gaps @ [Elapse d, Elapse lat, Answer (next_timer s + length gaps) r])
        = run_events c (run_events c s (burst key q dl gaps @ [Elapse d]))
            [Elapse lat, Answer (next_timer s + length gaps) r]"
    by (simp add: run_events_def)
  also have "\<dots> = s\<lparr>clock := clock s + int (sum_list gaps) + int d + int lat,
       sent := sent s @ [q],
       next_timer := Suc (next_timer s + length gaps),
       debounceMap := (debounceMap s)(key := None),
       promises := (promises s)(next_promise s + length gaps \<mapsto> r),
       next_promise := Suc (next_promise s + length gaps)\<rparr>"
    unfolding burst_fired [OF t assms(2,3)]
    using t fnd flt nowait
    by (simp add: step_def elapse_def Let_def answer_def resume_def)
  finally show ?thesis .
qed

lemma miss_persists:
  assumes "\<not> truthy (getCachedData key s)"
    and "queryCache s' = queryCache s" and "clock s \<le> clock s'"
  shows "\<not> truthy (getCachedData key s')"
proof (cases "queryCache s key")
  case None
  with assms(2) show ?thesis by (simp add: getCachedData_def)
next
  case (Some e)
  with assms show ?thesis
    by (auto simp: getCachedData_def split: if_splits)
qed

lemma two_callers:
  assumes "quiet s" and "\<not> truthy (getCachedData verified_doctors_cacheKey s)"
    and "g < 300" and "300 \<le> d"
  shows "run_events True s
       [GetVerifiedDoctors, Elapse g, GetVerifiedDoctors, Elapse d, Elapse lat,
        Answer (Suc (next_timer s)) (Inr result)] =
     s\<lparr>clock := clock s + int g + int d + int lat,
       next_caller := Suc (Suc (next_caller s)),
       next_timer := Suc (Suc (next_timer s)),
       next_promise := Suc (Suc (next_promise s)),
       sent := sent s @ [verified_doctors_request],
       promises := (promises s)(Suc (next_promise s) \<mapsto> Inr result),
       debounceMap := (debounceMap s)(''verified_doctors'' := None),
       waiting := waiting s @ [(next_promise s, next_caller s)],
       queryCache := (queryCache s)(verified_doctors_cacheKey \<mapsto>
          \<lparr>ce_data = result, ce_timestamp = clock s + int g + int d + int lat\<rparr>),
       returned := (returned s)(Suc (next_caller s) \<mapsto> result)\<rparr>"
proof -
  from assms(1) have t: "timers s = []"
    and f: "\<forall>t\<in>set (flights s). tm_id t < next_timer s"
    and w: "\<forall>w\<in>set (waiting s). fst w < next_promise s"
    by (simp_all add: quiet_def)
  let ?T0 = "\<lparr>tm_id = next_timer s, tm_due = clock s + 300, tm_key = ''verified_doctors'',
              tm_query = verified_doctors_request, tm_promise = next_promise s\<rparr>"
  let ?T1 = "\<lparr>tm_id = Suc (next_timer s), tm_due = clock s + int g + 300,
              tm_key = ''verified_doctors'',
              tm_query = verified_doctors_request, tm_promise = Suc (next_promise s)\<rparr>"
  let ?s1 = "s\<lparr>next_caller := Suc (next_caller s),
       timers := [?T0],
       next_timer := Suc (next_timer s),
       debounceMap := (debounceMap s)(''verified_doctors'' \<mapsto> next_timer s),
       next_promise := Suc (next_promise s),
       waiting := waiting s @ [(next_promise s, next_caller s)]\<rparr>"
  let ?s2 = "?s1\<lparr>clock := clock s + int g\<rparr>"
  let ?s3 = "s\<lparr>clock := clock s + int g,
       next_caller := Suc (Suc (next_caller s)),
       timers := [?T1],
       next_timer := Suc (Suc (next_timer s)),
       debounceMap := (debounceMap s)(''verified_doctors'' \<mapsto> Suc (next_timer s)),
       next_promise := Suc (Suc (next_promise s)),
       waiting := waiting s @ [(next_promise s, next_caller s),
                               (Suc (next_promise s), Suc (next_caller s))]\<rparr>"
  have s1: "step True s GetVerifiedDoctors = ?s1"
    using getVerifiedDoctors_miss [OF assms(2) t] by (simp add: step_def)
  have s2: "step True ?s1 (Elapse g) = ?s2"
    using assms(3) by (simp add: step_def elapse_def Let_def)
  have miss2: "\<not> truthy (getCachedData verified_doctors_cacheKey
                  (?s2\<lparr>next_caller := Suc (Suc (next_caller s))\<rparr>))"
    by (rule miss_persists [OF assms(2)]) simp_all
  have s3: "step True ?s2 GetVerifiedDoctors = ?s3"
    using miss2
    by (simp add: step_def getVerifiedDoctors_def debounceQuery_def clearTimeout_def Let_def)
  have fnd: "find (\<lambda>t. tm_id t = Suc (next_timer s)) (flights s @ [?T1]) = Some ?T1"
    using f by (intro find_last) auto
  have flt: "filter (\<lambda>t. tm_id t \<noteq> Suc (next_timer s)) (flights s) = flights s"
    using f by (intro filter_all) auto
  have m: "map_of (waiting s) (Suc (next_promise s)) = None"
    using w by (rule map_of_fresh) simp
  have flt2: "filter (\<lambda>w. fst w \<noteq> Suc (next_promise s)) (waiting s) = waiting s"
    using w by (intro filter_all) auto
  have s4: "run_events True ?s3 [Elapse d, Elapse lat, Answer (Suc (next_timer s)) (Inr result)] =
     s\<lparr>clock := clock s + int g + int d + int lat,
       next_caller := Suc (Suc (next_caller s)),
       next_timer := Suc (Suc (next_timer s)),
       next_promise := Suc (Suc (next_promise s)),
       sent := sent s @ [verified_doctors_request],
       promises := (promises s)(Suc (next_promise s) \<mapsto> Inr result),
       debounceMap := (debounceMap s)(''verified_doctors'' := None),
       waiting := waiting s @ [(next_promise s, next_caller s)],
       queryCache := (queryCache s)(verified_doctors_cacheKey \<mapsto>
          \<lparr>ce_data = result, ce_timestamp = clock s + int g + int d + int lat\<rparr>),
       returned := (returned s)(Suc (next_caller s) \<mapsto> result)\<rparr>"
    using assms(4) t fnd flt m flt2
    by (simp add: step_def elapse_def fire_def answer_def resume_def setCachedData_def Let_def
          map_add_def)
  have "run_events True s
       [GetVerifiedDoctors, Elapse g, GetVerifiedDoctors, Elapse d, Elapse lat,
        Answer (Suc (next_timer s)) (Inr result)]
      = run_events True ?s3 [Elapse d, Elapse lat, Answer (Suc (next_timer s)) (Inr result)]"
    by (simp only: run_events_simps s1 s2 s3)
  with s4 show ?thesis by simp
qed

lemma fresh_ids_debounceQuery:
  "fresh_ids s \<Longrightarrow> fresh_ids (snd (debounceQuery key q dl s))"
  by (auto simp: fresh_ids_def debounceQuery_def clearTimeout_def Let_def less_Suc_eq
           split: option.splits)

lemma fresh_ids_getVerifiedDoctors:
  assumes "fresh_ids s"
  shows "fresh_ids (getVerifiedDoctors cfg s)"
proof -
  let ?s0 = "s\<lparr>next_caller := Suc (next_caller s)\<rparr>"
  have s0: "fresh_ids ?s0"
    using assms by (simp add: fresh_ids_def)
  show ?thesis
  proof (cases "\<not> cfg \<or> truthy (getCachedData verified_doctors_cacheKey ?s0)")
    case True
    then show ?thesis
      using s0 by (auto simp: getVerifiedDoctors_def Let_def fresh_ids_def)
  next
    case False
    obtain p' s1 where d: "debounceQuery ''verified_doctors'' verified_doctors_request 300 ?s0
       = (p', s1)" by (cases "debounceQuery ''verified_doctors'' verified_doctors_request 300 ?s0")
    have s1: "fresh_ids s1"
      using fresh_ids_debounceQuery [OF s0, of "''verified_doctors''" verified_doctors_request 300] d
      by simp
    have p': "p' < next_promise s1"
      using debounceQuery_fields(1,7) [of "''verified_doctors''" verified_doctors_request 300 ?s0] d
      by simp
    have "fresh_ids (s1\<lparr>waiting := waiting s1 @ [(p', next_caller s)]\<rparr>)"
      using s1 p' by (auto simp: fresh_ids_def)
    with False d show ?thesis
      by (simp add: getVerifiedDoctors_def Let_def)
  qed
qed

lemma fire_all_next_timer:
  "next_timer (foldl (\<lambda>acc t. fire t acc) s ts) = next_timer s"
  by (induction ts arbitrary: s) (simp_all add: fire_def)

lemma fresh_ids_elapse: "fresh_ids s \<Longrightarrow> fresh_ids (elapse d s)"
  by (auto simp: fresh_ids_def elapse_def Let_def fire_all fire_all_next_timer)

lemma resume_ids:
  "next_timer (resume p outcome s) = next_timer s"
  "set (waiting (resume p outcome s)) \<subseteq> set (waiting s)"
  by (auto simp: resume_def setCachedData_def Let_def split: option.splits sum.splits)

lemma fresh_ids_answer: "fresh_ids s \<Longrightarrow> fresh_ids (answer tid outcome s)"
proof (cases "find (\<lambda>t. tm_id t = tid) (flights s)")
  case None
  assume "fresh_ids s"
  with None show ?thesis by (simp add: answer_def)
next
  case (Some t)
  assume st: "fresh_ids s"
  let ?s1 = "s\<lparr>flights := filter (\<lambda>t. tm_id t \<noteq> tid) (flights s),
               promises := (promises s)(tm_promise t \<mapsto> outcome),
               debounceMap := (debounceMap s)(tm_key t := None)\<rparr>"
  have "fresh_ids ?s1" using st by (auto simp: fresh_ids_def)
  then have "fresh_ids (resume (tm_promise t) outcome ?s1)"
    using resume_ids(2) [of "tm_promise t" outcome ?s1]
    by (auto simp: fresh_ids_def resume_fields resume_ids(1))
  with Some show ?thesis by (simp add: answer_def)
qed

lemma fresh_ids_step: "fresh_ids s \<Longrightarrow> fresh_ids (step cfg s e)"
  by (cases e)
     (simp_all add: step_def fresh_ids_debounceQuery fresh_ids_getVerifiedDoctors
        fresh_ids_elapse fresh_ids_answer)

lemma fresh_ids_run: "fresh_ids s \<Longrightarrow> fresh_ids (run_events cfg s es)"
  by (induction es arbitrary: s) (simp_all add: fresh_ids_step)

lemma reachable_quiet:
  "timers (run_events cfg (init t0) es) = [] \<Longrightarrow> quiet (run_events cfg (init t0) es)"
proof -
  have "fresh_ids (init t0)" by (simp add: fresh_ids_def init_def)
  from fresh_ids_run [OF this, of cfg es] show
    "timers (run_events cfg (init t0) es) = [] \<Longrightarrow> quiet (run_events cfg (init t0) es)"
    by (simp add: fresh_ids_def quiet_def)
qed

lemma busy_state_eq:
  "busy_state =
     (init 0)\<lparr>clock := 300,
       flights := [\<lparr>tm_id = 0, tm_due = 300, tm_key = ''other'', tm_query = Auth_getSession,
                    tm_promise = 0\<rparr>],
       sent := [Auth_getSession], next_timer := 1,
       debounceMap := [''other'' \<mapsto> 0], next_promise := 1\<rparr>"
  by (simp add: busy_state_def step_def debounceQuery_def elapse_def fire_def Let_def init_def)

text \<open>
  C1 (amended). Take any state in which no timer is pending (the queries in flight and
  the waiting callers being earlier ones, as in every state that can be reached), and let
  nothing else happen until the query has settled. For every key, query and delay, when
  calls of \<open>debounceQuery\<close> follow one another each less than the delay after the one
  before, exactly one query is sent, once the delay has passed after the last call, and
  the promise of the last call settles with its outcome. For \<open>getVerifiedDoctors\<close>, with
  no fresh entry in the cache: of two calls less than 300 ms apart one request is sent,
  for the verified doctors by descending rating, and the second caller receives the
  result, which is stored in the cache.
\<close>

theorem debounce_last_call:
  "(quiet s \<and> (\<forall>g\<in>set gaps. g < dl) \<and> dl \<le> d \<longrightarrow>
      sent (run_events c s (burst key q dl gaps @ [Elapse d])) = sent s @ [q] \<and>
      run_events c s
        (burst key q dl gaps @ [Elapse d, Elapse lat, Answer (next_timer s + length gaps) r]) =
        s\<lparr>clock := clock s + int (sum_list gaps) + int d + int lat,
          sent := sent s @ [q],
          next_timer := Suc (next_timer s + length gaps),
          debounceMap := (debounceMap s)(key := None),
          promises := (promises s)(next_promise s + length gaps \<mapsto> r),
          next_promise := Suc (next_promise s + length gaps)\<rparr>) \<and>
   (quiet s \<and> \<not> truthy (getCachedData verified_doctors_cacheKey s) \<and> g < 300 \<and> 300 \<le> d \<longrightarrow>
      run_events True s
        [GetVerifiedDoctors, Elapse g, GetVerifiedDoctors, Elapse d, Elapse lat,
         Answer (Suc (next_timer s)) (Inr result)] =
        s\<lparr>clock := clock s + int g + int d + int lat,
          next_caller := Suc (Suc (next_caller s)),
          next_timer := Suc (Suc (next_timer s)),
          next_promise := Suc (Suc (next_promise s)),
          sent := sent s @ [verified_doctors_request],
          promises := (promises s)(Suc (next_promise s) \<mapsto> Inr result),
          debounceMap := (debounceMap s)(''verified_doctors'' := None),
          waiting := waiting s @ [(next_promise s, next_caller s)],
          queryCache := (queryCache s)(verified_doctors_cacheKey \<mapsto>
             \<lparr>ce_data = result, ce_timestamp = clock s + int g + int d + int lat\<rparr>),
          returned := (returned s)(Suc (next_caller s) \<mapsto> result)\<rparr>) \<and>
   (timers (run_events c (init t0) es) = [] \<longrightarrow> quiet (run_events c (init t0) es)) \<and>
   verified_doctors_request =
     Db_select_order ''doctors'' ''verification_status'' ''verified'' ''rating'' False"
proof -
  have a: "quiet s \<and> (\<forall>g\<in>set gaps. g < dl) \<and> dl \<le> d \<longrightarrow>
      sent (run_events c s (burst key q dl gaps @ [Elapse d])) = sent s @ [q]"
    by (simp add: burst_fired quiet_def)
  show ?thesis
    using a burst_answered [of s gaps dl d c key q lat r] two_callers [of s g d lat result]
          reachable_quiet [of c t0 es]
    by (simp add: verified_doctors_request_def)
qed

theorem debounce_last_call_witness:
  "quiet (init 0) \<and> quiet busy_state \<and>
   sent (run_events True (init 0)
           [DebounceQuery ''k'' Auth_getUser 300, Elapse 100,
            DebounceQuery ''k'' Auth_getUser 300, Elapse 150,
            DebounceQuery ''k'' Auth_getUser 300, Elapse 300]) = [Auth_getUser] \<and>
   promises (run_events True (init 0)
           [DebounceQuery ''k'' Auth_getUser 300, Elapse 100,
            DebounceQuery ''k'' Auth_getUser 300, Elapse 150,
            DebounceQuery ''k'' Auth_getUser 300, Elapse 300, Elapse 40,
            Answer 2 (Inr (JStr ''done''))]) 2 = Some (Inr (JStr ''done'')) \<and>
   sent (run_events True busy_state
           [DebounceQuery ''k'' Auth_getUser 300, Elapse 100,
            DebounceQuery ''k'' Auth_getUser 300, Elapse 150,
            DebounceQuery ''k'' Auth_getUser 300, Elapse 300, Elapse 40,
            Answer 3 (Inr (JStr ''done''))]) = [Auth_getSession, Auth_getUser] \<and>
   promises (run_events True busy_state
           [DebounceQuery ''k'' Auth_getUser 300, Elapse 100,
            DebounceQuery ''k'' Auth_getUser 300, Elapse 150,
            DebounceQuery ''k'' Auth_getUser 300, Elapse 300, Elapse 40,
            Answer 3 (Inr (JStr ''done''))]) 3 = Some (Inr (JStr ''done'')) \<and>
   returned (run_events True (init 0)
        [GetVerifiedDoctors, Elapse 100, GetVerifiedDoctors, Elapse 300, Elapse 40,
         Answer 1 (Inr (JArr doctors))]) 1 = Some (JArr doctors) \<and>
   sent (run_events True (init 0)
        [GetVerifiedDoctors, Elapse 100, GetVerifiedDoctors, Elapse 300, Elapse 40,
         Answer 1 (Inr (JArr doctors))]) = [verified_doctors_request] \<and>
   sent (run_events True busy_state
        [GetVerifiedDoctors, Elapse 100, GetVerifiedDoctors, Elapse 300, Elapse 40,
         Answer 2 (Inr (JArr doctors))]) = [Auth_getSession, verified_doctors_request] \<and>
   returned (run_events True busy_state
        [GetVerifiedDoctors, Elapse 100, GetVerifiedDoctors, Elapse 300, Elapse 40,
         Answer 2 (Inr (JArr doctors))]) 1 = Some (JArr doctors)"
  using debounce_last_call [where s = "init 0" and gaps = "[100, 150]" and dl = 300 and d = 300
          and c = True and key = "''k''" and q = Auth_getUser and lat = 40
          and r = "Inr (JStr ''done'')" and g = 100 and result = "JArr doctors"
          and ?t0.0 = 0 and es = "[DebounceQuery ''other'' Auth_getSession 300, Elapse 300]"]
        debounce_last_call [where s = busy_state and gaps = "[100, 150]" and dl = 300 and d = 300
          and c = True and key = "''k''" and q = Auth_getUser and lat = 40
          and r = "Inr (JStr ''done'')" and g = 100 and result = "JArr doctors"
          and ?t0.0 = 0 and es = "[DebounceQuery ''other'' Auth_getSession 300, Elapse 300]"]
  by (simp add: burst_def numeral_2_eq_2 numeral_3_eq_3 quiet_def getCachedData_def)
     (simp add: busy_state_eq init_def getCachedData_def)

text \<open>
  Two calls 100 ms apart: the second caller receives the list, the first caller has
  received nothing ten minutes later; likewise for the promises of \<open>debounceQuery\<close>.
\<close>

theorem first_caller_left_pending:
  "returned (run_events True (init 0)
        [GetVerifiedDoctors, Elapse 100, GetVerifiedDoctors, Elapse 300, Elapse 40,
         Answer 1 (Inr (JArr doctors)), Elapse 600000]) 0 = None \<and>
   returned (run_events True (init 0)
        [GetVerifiedDoctors, Elapse 100, GetVerifiedDoctors, Elapse 300, Elapse 40,
         Answer 1 (Inr (JArr doctors)), Elapse 600000]) 1 = Some (JArr doctors) \<and>
   promises (run_events True (init 0)
        [DebounceQuery ''k'' Auth_getUser 300, Elapse 100,
         DebounceQuery ''k'' Auth_getUser 300, Elapse 300, Elapse 40,
         Answer 1 (Inr (JStr ''done'')), Elapse 600000]) 0 = None \<and>
   promises (run_events True (init 0)
        [DebounceQuery ''k'' Auth_getUser 300, Elapse 100,
         DebounceQuery ''k'' Auth_getUser 300, Elapse 300, Elapse 40,
         Answer 1 (Inr (JStr ''done'')), Elapse 600000]) 1 = Some (Inr (JStr ''done''))"
  by (simp add: step_def getVerifiedDoctors_def getCachedData_def debounceQuery_def
        clearTimeout_def elapse_def fire_def answer_def resume_def setCachedData_def
        Let_def init_def)

text \<open>
  Why nothing else may settle in between: a query of an earlier call, still in flight,
  deletes the key from the registry when it settles, and with it the registration of a
  newer timer. The next call then finds nothing to clear, and both timers fire.
\<close>

lemma earlier_query_unregisters_timer:
  "sent (run_events True (init 0)
      [GetVerifiedDoctors, Elapse 300, GetVerifiedDoctors, Elapse 40,
       Answer 0 (Inl (ServiceError ''down'')), GetVerifiedDoctors, Elapse 300])
   = [verified_doctors_request, verified_doctors_request, verified_doctors_request]"
  by (simp add: step_def getVerifiedDoctors_def getCachedData_def debounceQuery_def
        clearTimeout_def elapse_def fire_def answer_def resume_def Let_def init_def)

end
